theory Spec2Isabelle
  imports Complex_Main
begin

section \<open>Double precision\<close>

text \<open>
  Every number of the program is an IEEE 754 double, and every arithmetic operation rounds
  its exact result to the nearest double, to the one with an even significand on a tie.
  \<open>fl\<close> is that rounding on the reals: a significand of 53 bits, with the exponent range
  unbounded (overflow to infinity and gradual underflow are not modelled). A real that is
  not a double, such as the decimal \<open>0.1\<close>, stands for the double nearest to it, as a
  literal of the program does.
\<close>

text \<open>The number of binary digits of a natural number.\<close>

fun bit_length :: "nat \<Rightarrow> nat" where
  "bit_length n = (if n = 0 then 0 else Suc (bit_length (n div 2)))"

declare bit_length.simps [simp del]

text \<open>The exponent \<open>e\<close> with \<open>2\<^sup>e \<le> x < 2\<^sup>e\<^sup>+\<^sup>1\<close>, for a positive \<open>x\<close>.\<close>

definition floor_log2 :: "real \<Rightarrow> int" where
  "floor_log2 x =
     (if 1 \<le> x then int (bit_length (nat \<lfloor>x\<rfloor>)) - 1
      else - int (bit_length (nat (\<lceil>1 / x\<rceil> - 1))))"

text \<open>Rounding to the nearest integer, to the even one on a tie.\<close>

definition round_even :: "real \<Rightarrow> int" where
  "round_even y =
     (let f = \<lfloor>y\<rfloor>; d = y - of_int f
      in if d < 1 / 2 then f
         else if 1 / 2 < d then f + 1
         else if even f then f else f + 1)"

definition fl :: "real \<Rightarrow> real" where
  "fl x = (if x = 0 then 0
           else let u = 2 powi (floor_log2 \<bar>x\<bar> - 52)
                in of_int (round_even (x / u)) * u)"

text \<open>The four operations on doubles, away from the exceptional values.\<close>

definition fadd :: "real \<Rightarrow> real \<Rightarrow> real" where
  "fadd a b = fl (fl a + fl b)"

definition fsub :: "real \<Rightarrow> real \<Rightarrow> real" where
  "fsub a b = fl (fl a - fl b)"

definition fmul :: "real \<Rightarrow> real \<Rightarrow> real" where
  "fmul a b = fl (fl a * fl b)"

definition fdiv :: "real \<Rightarrow> real \<Rightarrow> real" where
  "fdiv a b = fl (fl a / fl b)"

section \<open>JavaScript numbers\<close>

text \<open>
  A number of the program is a double or one of the three exceptional values of the
  format, which the code under study reaches (\<open>0 / 0\<close>, \<open>x / 0\<close>, arithmetic on
  \<open>undefined\<close>); every comparison with \<open>NaN\<close> is false. \<open>Num x\<close> is the double nearest to
  \<open>x\<close>: the operations round their arguments and their result, and the comparisons
  round both sides. The sign of zero is not modelled.
\<close>

datatype jsnum = Num real | PInf | NInf | NaN

fun js_neg :: "jsnum \<Rightarrow> jsnum" where
  "js_neg (Num a) = Num (- a)"
| "js_neg PInf = NInf"
| "js_neg NInf = PInf"
| "js_neg NaN = NaN"

fun js_add :: "jsnum \<Rightarrow> jsnum \<Rightarrow> jsnum" where
  "js_add NaN y = NaN"
| "js_add x NaN = NaN"
| "js_add (Num a) (Num b) = Num (fadd a b)"
| "js_add PInf NInf = NaN"
| "js_add NInf PInf = NaN"
| "js_add PInf y = PInf"
| "js_add NInf y = NInf"
| "js_add (Num a) y = y"

definition js_sub :: "jsnum \<Rightarrow> jsnum \<Rightarrow> jsnum" where
  "js_sub x y = js_add x (js_neg y)"

text \<open>The sign of an infinite product or quotient; a real zero counts as \<open>+0\<close>.\<close>

definition signed_inf :: "bool \<Rightarrow> jsnum" where
  "signed_inf positive = (if positive then PInf else NInf)"

fun js_mul :: "jsnum \<Rightarrow> jsnum \<Rightarrow> jsnum" where
  "js_mul NaN y = NaN"
| "js_mul x NaN = NaN"
| "js_mul (Num a) (Num b) = Num (fmul a b)"
| "js_mul (Num a) PInf = (if a = 0 then NaN else signed_inf (0 < a))"
| "js_mul (Num a) NInf = (if a = 0 then NaN else signed_inf (a < 0))"
| "js_mul PInf (Num b) = (if b = 0 then NaN else signed_inf (0 < b))"
| "js_mul NInf (Num b) = (if b = 0 then NaN else signed_inf (b < 0))"
| "js_mul PInf PInf = PInf"
| "js_mul NInf NInf = PInf"
| "js_mul PInf NInf = NInf"
| "js_mul NInf PInf = NInf"

fun js_div :: "jsnum \<Rightarrow> jsnum \<Rightarrow> jsnum" where
  "js_div NaN y = NaN"
| "js_div x NaN = NaN"
| "js_div (Num a) (Num b) =
     (if b \<noteq> 0 then Num (fdiv a b)
      else if 0 < a then PInf
      else if a < 0 then NInf
      else NaN)"
| "js_div (Num a) y = Num 0"
| "js_div PInf (Num b) = signed_inf (0 \<le> b)"
| "js_div NInf (Num b) = signed_inf (b < 0)"
| "js_div x y = NaN"

text \<open>Comparisons: false as soon as one side is \<open>NaN\<close>.\<close>

fun js_lt :: "jsnum \<Rightarrow> jsnum \<Rightarrow> bool" where
  "js_lt NaN y = False"
| "js_lt x NaN = False"
| "js_lt (Num a) (Num b) = (fl a < fl b)"
| "js_lt x NInf = False"
| "js_lt PInf y = False"
| "js_lt x y = True"

definition js_gt :: "jsnum \<Rightarrow> jsnum \<Rightarrow> bool" where
  "js_gt x y = js_lt y x"

fun js_le :: "jsnum \<Rightarrow> jsnum \<Rightarrow> bool" where
  "js_le NaN y = False"
| "js_le x NaN = False"
| "js_le (Num a) (Num b) = (fl a \<le> fl b)"
| "js_le x y = (x = y \<or> js_lt x y)"

definition js_ge :: "jsnum \<Rightarrow> jsnum \<Rightarrow> bool" where
  "js_ge x y = js_le y x"

text \<open>\<open>Math.min\<close> and \<open>Math.max\<close> return \<open>NaN\<close> when an argument is \<open>NaN\<close>.\<close>

fun js_min :: "jsnum \<Rightarrow> jsnum \<Rightarrow> jsnum" where
  "js_min NaN y = NaN"
| "js_min x NaN = NaN"
| "js_min x y = (if js_lt y x then y else x)"

fun js_max :: "jsnum \<Rightarrow> jsnum \<Rightarrow> jsnum" where
  "js_max NaN y = NaN"
| "js_max x NaN = NaN"
| "js_max x y = (if js_lt x y then y else x)"

text \<open>
  A property that may be absent: reading it gives \<open>undefined\<close>, and \<open>undefined\<close> in
  arithmetic is \<open>NaN\<close>.
\<close>

definition to_number :: "real option \<Rightarrow> jsnum" where
  "to_number v = (case v of None \<Rightarrow> NaN | Some x \<Rightarrow> Num x)"

section \<open>Arrays\<close>

text \<open>
  \<open>Array.prototype.slice(begin, end)\<close> on integer arguments: a negative index counts from
  the end, and both bounds are clamped to the array.
\<close>

definition js_slice :: "'a list \<Rightarrow> int \<Rightarrow> int \<Rightarrow> 'a list" where
  "js_slice xs b e =
     (let n = int (length xs);
          k = (if b < 0 then max (n + b) 0 else min b n);
          f = (if e < 0 then max (n + e) 0 else min e n)
      in take (nat (f - k)) (drop (nat k) xs))"

text \<open>\<open>xs[i]\<close> used as a number: out of range it is \<open>undefined\<close>, hence \<open>NaN\<close>.\<close>

definition js_nth :: "real list \<Rightarrow> int \<Rightarrow> jsnum" where
  "js_nth xs i = (if 0 \<le> i \<and> i < int (length xs) then Num (xs ! nat i) else NaN)"

text \<open>\<open>xs.reduce((a, b) => a + b, 0)\<close>: the sum as accumulated from the left, in doubles.\<close>

definition reduce_sum :: "real list \<Rightarrow> real" where
  "reduce_sum xs = foldl fadd 0 xs"

section \<open>Indicator library (class TechnicalAnalysis)\<close>

subsection \<open>calculateSMA\<close>

definition calculateSMA :: "real list \<Rightarrow> int \<Rightarrow> jsnum list" where
  "calculateSMA prices period =
     (if int (length prices) < period then []
      else map (\<lambda>i. js_div (Num (reduce_sum (js_slice prices (i - period + 1) (i + 1))))
                            (Num (real_of_int period)))
               [period - 1 .. int (length prices) - 1])"

subsection \<open>calculateRSI\<close>

text \<open>The first loop: one gain and one loss per consecutive pair of prices.\<close>

fun changes :: "real list \<Rightarrow> real list" where
  "changes (p # q # ps) = fsub q p # changes (q # ps)"
| "changes ps = []"

definition gains_of :: "real list \<Rightarrow> real list" where
  "gains_of prices = map (\<lambda>change. if change > 0 then change else 0) (changes prices)"

definition losses_of :: "real list \<Rightarrow> real list" where
  "losses_of prices = map (\<lambda>change. if change < 0 then \<bar>change\<bar> else 0) (changes prices)"

definition rsi_value :: "jsnum \<Rightarrow> jsnum \<Rightarrow> jsnum" where
  "rsi_value avgGain avgLoss =
     (let rs = js_div avgGain avgLoss
      in js_sub (Num 100) (js_div (Num 100) (js_add (Num 1) rs)))"

text \<open>
  The state of the second loop is \<open>(avgGain, avgLoss, rsi)\<close>; one iteration smooths both
  averages with the sample at index \<open>i\<close> and appends a value.
\<close>

definition rsi_step ::
  "real list \<Rightarrow> real list \<Rightarrow> int \<Rightarrow> int \<Rightarrow> jsnum \<times> jsnum \<times> jsnum list \<Rightarrow> jsnum \<times> jsnum \<times> jsnum list"
where
  "rsi_step gains losses period i st =
     (case st of (avgGain, avgLoss, rsi) \<Rightarrow>
        let p = Num (real_of_int period);
            p1 = Num (real_of_int (period - 1));
            avgGain' = js_div (js_add (js_mul avgGain p1) (js_nth gains i)) p;
            avgLoss' = js_div (js_add (js_mul avgLoss p1) (js_nth losses i)) p
        in (avgGain', avgLoss', rsi @ [rsi_value avgGain' avgLoss']))"

definition calculateRSI :: "real list \<Rightarrow> int \<Rightarrow> jsnum list" where
  "calculateRSI prices period =
     (if int (length prices) < period + 1 then []
      else
        let gains = gains_of prices;
            losses = losses_of prices;
            p = Num (real_of_int period);
            avgGain = js_div (Num (reduce_sum (js_slice gains 0 period))) p;
            avgLoss = js_div (Num (reduce_sum (js_slice losses 0 period))) p;
            st = fold (rsi_step gains losses period)
                      [period .. int (length gains) - 1]
                      (avgGain, avgLoss, [rsi_value avgGain avgLoss])
        in snd (snd st))"

section \<open>Technical signal generator (class AIDecisionEngine)\<close>

text \<open>\<open>String.prototype.includes\<close>: does \<open>sub\<close> occur in \<open>s\<close> as a contiguous run?\<close>

fun js_includes :: "string \<Rightarrow> string \<Rightarrow> bool" where
  "js_includes [] sub = (sub = [])"
| "js_includes (c # cs) sub = (take (length sub) (c # cs) = sub \<or> js_includes cs sub)"

text \<open>The object \<open>{ signal, strength }\<close> that every per-indicator rule returns.\<close>

record signal_obj =
  signal :: string
  strength :: real

record bollinger_band =
  upper :: real
  middle :: real
  lower :: real

definition getBollingerSignal :: "real \<Rightarrow> bollinger_band \<Rightarrow> signal_obj" where
  "getBollingerSignal currentPrice bb =
     (if currentPrice \<le> lower bb then \<lparr>signal = ''BUY'', strength = 0.7\<rparr>
      else if currentPrice \<ge> upper bb then \<lparr>signal = ''SELL'', strength = 0.7\<rparr>
      else if currentPrice > middle bb then \<lparr>signal = ''WEAK_BUY'', strength = 0.4\<rparr>
      else if currentPrice < middle bb then \<lparr>signal = ''WEAK_SELL'', strength = 0.4\<rparr>
      else \<lparr>signal = ''HOLD'', strength = 0.3\<rparr>)"

record volume_analysis =
  trend :: string
  volume_strength :: string
  unusualActivity :: bool

definition getVolumeSignal :: "volume_analysis \<Rightarrow> signal_obj" where
  "getVolumeSignal volumeAnalysis =
     (if unusualActivity volumeAnalysis \<and> trend volumeAnalysis = ''INCREASING''
        then \<lparr>signal = ''STRONG_SIGNAL'', strength = 0.9\<rparr>
      else if volume_strength volumeAnalysis = ''HIGH'' \<and> trend volumeAnalysis = ''INCREASING''
        then \<lparr>signal = ''CONFIRMATION'', strength = 0.7\<rparr>
      else if volume_strength volumeAnalysis = ''LOW''
        then \<lparr>signal = ''WEAK_SIGNAL'', strength = 0.3\<rparr>
      else \<lparr>signal = ''NEUTRAL'', strength = 0.5\<rparr>)"

subsection \<open>evaluateTechnicalSignals\<close>

record scores =
  buy :: real
  sell :: real
  hold :: real

text \<open>
  The verdict \<open>{ signal, confidence, scores }\<close>. The combiner later reads a property
  \<open>strength\<close> of this object; \<open>overall_strength\<close> is that property, absent (\<open>None\<close>) in
  every object built here.
\<close>

record overall_obj =
  overall_signal :: string
  overall_strength :: "real option"
  overall_confidence :: jsnum
  overall_scores :: scores

text \<open>
  One iteration of the loop over \<open>Object.entries(signals)\<close>: the state is the three
  arrays \<open>(buySignals, sellSignals, holdSignals)\<close>.
\<close>

definition bucket_step ::
  "string \<times> signal_obj \<Rightarrow> real list \<times> real list \<times> real list \<Rightarrow> real list \<times> real list \<times> real list"
where
  "bucket_step entry st =
     (case st of (buySignals, sellSignals, holdSignals) \<Rightarrow>
        let sig = snd entry in
        if js_includes (signal sig) ''BUY'' then (buySignals @ [strength sig], sellSignals, holdSignals)
        else if js_includes (signal sig) ''SELL'' then (buySignals, sellSignals @ [strength sig], holdSignals)
        else (buySignals, sellSignals, holdSignals @ [strength sig]))"

definition evaluateTechnicalSignals :: "(string \<times> signal_obj) list \<Rightarrow> overall_obj" where
  "evaluateTechnicalSignals signals =
     (case fold bucket_step signals ([], [], []) of (buySignals, sellSignals, holdSignals) \<Rightarrow>
        let buyScore = reduce_sum buySignals;
            sellScore = reduce_sum sellSignals;
            holdScore = reduce_sum holdSignals;
            totalScore = fadd (fadd buyScore sellScore) holdScore;
            sc = \<lparr>buy = buyScore, sell = sellScore, hold = holdScore\<rparr>
        in if buyScore > sellScore \<and> buyScore > holdScore then
             \<lparr>overall_signal = ''BUY'', overall_strength = None,
              overall_confidence = js_div (Num buyScore) (Num totalScore), overall_scores = sc\<rparr>
           else if sellScore > buyScore \<and> sellScore > holdScore then
             \<lparr>overall_signal = ''SELL'', overall_strength = None,
              overall_confidence = js_div (Num sellScore) (Num totalScore), overall_scores = sc\<rparr>
           else
             \<lparr>overall_signal = ''HOLD'', overall_strength = None,
              overall_confidence = js_div (Num holdScore) (Num totalScore), overall_scores = sc\<rparr>)"

section \<open>Decision combiner (class AIDecisionEngine)\<close>

subsection \<open>The sentiment source\<close>

text \<open>
  \<open>sentimentToSignal(score, confidence)\<close>, called by \<open>combineSentimentScores\<close> on the
  weighted score and the average confidence of the three sentiment feeds.
\<close>

definition sentimentToSignal :: "real \<Rightarrow> real \<Rightarrow> signal_obj" where
  "sentimentToSignal score confidence =
     (if fl confidence < fl 0.5 then \<lparr>signal = ''HOLD'', strength = 0.2\<rparr>
      else if fl 0.6 < fl score then \<lparr>signal = ''BUY'', strength = fmul confidence 0.7\<rparr>
      else if fl score < fl (- 0.6) then \<lparr>signal = ''SELL'', strength = fmul confidence 0.7\<rparr>
      else \<lparr>signal = ''HOLD'', strength = fmul confidence 0.4\<rparr>)"

subsection \<open>The prediction source\<close>

record predictions =
  pred_priceDirection :: string
  pred_volatility :: string
  pred_confidence :: real

definition mlToSignal :: "predictions \<Rightarrow> signal_obj" where
  "mlToSignal p =
     (if fl (pred_confidence p) < fl 0.6 then \<lparr>signal = ''HOLD'', strength = 0.3\<rparr>
      else if pred_priceDirection p = ''UP''
        then \<lparr>signal = ''BUY'', strength = fmul (pred_confidence p) 0.8\<rparr>
      else if pred_priceDirection p = ''DOWN''
        then \<lparr>signal = ''SELL'', strength = fmul (pred_confidence p) 0.8\<rparr>
      else \<lparr>signal = ''HOLD'', strength = fmul (pred_confidence p) 0.5\<rparr>)"

record ml_obj =
  priceDirection :: string
  volatility :: string
  ml_confidence :: jsnum
  ml_signal :: signal_obj

text \<open>
  \<open>performMLAnalysis\<close> awaits the provider inside \<open>try\<close>; its argument here is what the
  provider delivered, \<open>None\<close> when it threw. The \<open>catch\<close> branch returns a fixed object.
\<close>

definition performMLAnalysis :: "predictions option \<Rightarrow> ml_obj" where
  "performMLAnalysis outcome =
     (case outcome of
        Some p \<Rightarrow>
          \<lparr>priceDirection = pred_priceDirection p, volatility = pred_volatility p,
           ml_confidence = Num (pred_confidence p), ml_signal = mlToSignal p\<rparr>
      | None \<Rightarrow>
          \<lparr>priceDirection = ''NEUTRAL'', volatility = ''MEDIUM'',
           ml_confidence = Num 0, ml_signal = \<lparr>signal = ''HOLD'', strength = 0\<rparr>\<rparr>)"

subsection \<open>combineSignals\<close>

text \<open>
  The arguments, with the properties the function reads: \<open>technical.overall\<close>,
  \<open>sentiment.overall.signal\<close>, \<open>sentiment.overall.confidence\<close>, and the prediction object.
\<close>

record technical_obj =
  technical_overall :: overall_obj

record sentiment_overall_obj =
  sentiment_confidence :: jsnum
  sentiment_signal :: signal_obj

record sentiment_obj =
  sentiment_overall :: sentiment_overall_obj

text \<open>An element of the local array \<open>signals\<close>: a spread source plus its weight.\<close>

record weighted =
  w_signal :: string
  w_strength :: "real option"
  w_weight :: real

definition weigh_overall :: "overall_obj \<Rightarrow> real \<Rightarrow> weighted" where
  "weigh_overall ov w =
     \<lparr>w_signal = overall_signal ov, w_strength = overall_strength ov, w_weight = w\<rparr>"

definition weigh_signal :: "signal_obj \<Rightarrow> real \<Rightarrow> weighted" where
  "weigh_signal sg w = \<lparr>w_signal = signal sg, w_strength = Some (strength sg), w_weight = w\<rparr>"

text \<open>\<open>signals.filter(s => s.signal === label).reduce((sum, s) => sum + s.strength * s.weight, 0)\<close>\<close>

definition bucket_score :: "string \<Rightarrow> weighted list \<Rightarrow> jsnum" where
  "bucket_score label signals =
     foldl (\<lambda>sum s. js_add sum (js_mul (to_number (w_strength s)) (Num (w_weight s))))
           (Num 0)
           (filter (\<lambda>s. w_signal s = label) signals)"

record final_scores =
  fs_buy :: jsnum
  fs_sell :: jsnum
  fs_hold :: jsnum

record reasoning_obj =
  technicalScore :: jsnum
  sentimentScore :: jsnum
  mlScore :: jsnum
  finalScores :: final_scores

record decision =
  final_signal :: string
  final_confidence :: jsnum
  orderType :: string
  stopLoss :: "jsnum option"
  takeProfit :: "jsnum option"
  reasoning :: reasoning_obj

text \<open>
  \<open>stopLoss\<close> and \<open>takeProfit\<close> stay \<open>null\<close> (\<open>None\<close>) unless the signal is not HOLD and
  \<open>ml.volatility\<close> is truthy, that is, a non-empty string.
\<close>

definition combineSignals :: "technical_obj \<Rightarrow> sentiment_obj \<Rightarrow> ml_obj \<Rightarrow> decision" where
  "combineSignals technical sentiment ml =
     (let signals = [weigh_overall (technical_overall technical) 0.5,
                     weigh_signal (sentiment_signal (sentiment_overall sentiment)) 0.3,
                     weigh_signal (ml_signal ml) 0.2];
          buyScore = bucket_score ''BUY'' signals;
          sellScore = bucket_score ''SELL'' signals;
          holdScore = bucket_score ''HOLD'' signals;
          totalWeight = foldl (\<lambda>sum s. fadd sum (w_weight s)) 0 signals;
          neutralWeight = fsub 1 totalWeight;
          adjustedHoldScore = js_add holdScore (Num (fmul neutralWeight 0.5));
          (finalSignal, confidence, orderType) =
            (if js_gt buyScore sellScore \<and> js_gt buyScore adjustedHoldScore \<and> js_gt buyScore (Num 0.6)
               then let c = js_min buyScore (Num 0.95)
                    in (''BUY'', c, if js_gt c (Num 0.8) then ''MARKET'' else ''LIMIT'')
             else if js_gt sellScore buyScore \<and> js_gt sellScore adjustedHoldScore \<and> js_gt sellScore (Num 0.6)
               then let c = js_min sellScore (Num 0.95)
                    in (''SELL'', c, if js_gt c (Num 0.8) then ''MARKET'' else ''LIMIT'')
             else (''HOLD'', js_max adjustedHoldScore (Num 0.3), ''MARKET''));
          (stopLoss, takeProfit) =
            (if finalSignal \<noteq> ''HOLD'' \<and> volatility ml \<noteq> []
               then let volatilityMultiplier =
                          (if volatility ml = ''HIGH'' then 1.5
                           else if volatility ml = ''LOW'' then 0.7 else 1.0)
                    in (Some (Num (if js_gt confidence (Num 0.8) then fmul 0.02 volatilityMultiplier
                                   else fmul 0.015 volatilityMultiplier)),
                        Some (Num (if js_gt confidence (Num 0.8) then fmul 0.04 volatilityMultiplier
                                   else fmul 0.03 volatilityMultiplier)))
             else (None, None))
      in \<lparr>final_signal = finalSignal, final_confidence = confidence, orderType = orderType,
          stopLoss = stopLoss, takeProfit = takeProfit,
          reasoning =
            \<lparr>technicalScore = overall_confidence (technical_overall technical),
             sentimentScore = sentiment_confidence (sentiment_overall sentiment),
             mlScore = ml_confidence ml,
             finalScores = \<lparr>fs_buy = buyScore, fs_sell = sellScore, fs_hold = adjustedHoldScore\<rparr>\<rparr>\<rparr>)"

section \<open>Risk evaluator (class RiskManager)\<close>

text \<open>
  The risk levels are string constants in the source; they are used as an enumeration and
  modelled as one.
\<close>

datatype level = LOW | MEDIUM | HIGH | EXTREME | UNKNOWN

subsection \<open>Configuration and environment\<close>

text \<open>
  \<open>getConfig\<close> reads the object under \<open>tradingConfig\<close> from extension storage. An optional
  property is an \<open>option\<close>; \<open>platforms\<close> holds the \<open>name\<close> of each platform entry, the only
  property read.
\<close>

record risk_settings =
  maxPositionSize :: real
  maxTotalExposure :: real
  maxSectorExposure :: "real option"
  useKellyCriterion :: bool
  minTradeValue :: "real option"
  maxTradeValue :: "real option"

record trading_settings =
  allowedSymbols :: "string list option"
  blockedSymbols :: "string list option"

record trading_config =
  riskSettings :: "risk_settings option"
  platforms :: "string list option"
  tradingSettings :: "trading_settings option"

text \<open>\<open>v || d\<close> on a number that may be absent: absent and \<open>0\<close> are falsy.\<close>

definition or_default :: "real option \<Rightarrow> real \<Rightarrow> real" where
  "or_default v d = (case v of None \<Rightarrow> d | Some x \<Rightarrow> if x = 0 then d else x)"

record market_conditions =
  mc_volatility :: real
  majorEvents :: "string list"
  isMarketHours :: bool
  liquidityScore :: real

record holding =
  holding_symbol :: string
  quantity :: real
  currentPrice :: real

record balance =
  currency :: string
  available :: real
  locked :: real

record platform_data =
  positions :: "holding list option"
  balances :: "balance list option"

record open_position =
  position_symbol :: string
  position_exposure :: real

text \<open>
  Everything the evaluator awaits from outside: extension storage and the helper methods
  that the source leaves as stand-ins for market data (\<open>getMarketConditions\<close>,
  \<open>getAssetVolatility\<close>, \<open>getHistoricalWinRate\<close>, \<open>getAverageWin\<close>, \<open>getAverageLoss\<close>,
  \<open>getCurrentPositions\<close>, \<open>getCorrelation\<close>, \<open>platformSupportsSymbol\<close>,
  \<open>checkPlatformHealth\<close>, \<open>assessIndividualPlatformRisk\<close>). \<open>getMarketConditions\<close> is
  awaited inside \<open>try\<close>: \<open>None\<close> stands for a rejected promise.
\<close>

record env =
  tradingConfig :: trading_config
  portfolioData :: "(string \<times> platform_data) list"
  getMarketConditions :: "market_conditions option"
  getAssetVolatility :: "string \<Rightarrow> real"
  getHistoricalWinRate :: "string \<Rightarrow> string \<Rightarrow> real"
  getAverageWin :: "string \<Rightarrow> string \<Rightarrow> real"
  getAverageLoss :: "string \<Rightarrow> string \<Rightarrow> real"
  getCurrentPositions :: "open_position list"
  getCorrelation :: "string \<Rightarrow> string \<Rightarrow> real"
  platformSupportsSymbol :: "string \<Rightarrow> string \<Rightarrow> bool"
  checkPlatformHealth :: "string \<Rightarrow> bool"
  assessIndividualPlatformRisk :: "string \<Rightarrow> string \<Rightarrow> level"

subsection \<open>assessMarketConditions\<close>

record market_risk =
  market_level :: level
  market_factors :: "string list"

definition assessMarketConditions :: "market_conditions option \<Rightarrow> market_risk" where
  "assessMarketConditions outcome =
     (case outcome of
        None \<Rightarrow> \<lparr>market_level = HIGH, market_factors = [''Market assessment failed'']\<rparr>
      | Some conditions \<Rightarrow>
          let (riskFactors1, riskLevel1) =
                (if mc_volatility conditions > 0.4 then ([''High market volatility''], HIGH)
                 else if mc_volatility conditions > 0.25 then ([''Elevated market volatility''], MEDIUM)
                 else ([], LOW));
              (riskFactors2, riskLevel2) =
                (if length (majorEvents conditions) > 0
                   then (riskFactors1 @ [''Major economic events scheduled''],
                         if riskLevel1 = HIGH then EXTREME else HIGH)
                 else (riskFactors1, riskLevel1));
              (riskFactors3, riskLevel3) =
                (if \<not> isMarketHours conditions
                   then (riskFactors2 @ [''Trading outside market hours''],
                         if riskLevel2 = LOW then MEDIUM else riskLevel2)
                 else (riskFactors2, riskLevel2));
              (riskFactors4, riskLevel4) =
                (if liquidityScore conditions < 0.5
                   then (riskFactors3 @ [''Low market liquidity''],
                         if riskLevel3 = HIGH then EXTREME else HIGH)
                 else (riskFactors3, riskLevel3))
          in \<lparr>market_level = riskLevel4, market_factors = riskFactors4\<rparr>)"

subsection \<open>Exposure\<close>

definition getAssetSector :: "string \<Rightarrow> string option" where
  "getAssetSector symbol =
     map_of [(''AAPL'', ''Technology''), (''GOOGL'', ''Technology''), (''MSFT'', ''Technology''),
             (''BTC'', ''Cryptocurrency''), (''ETH'', ''Cryptocurrency'')] symbol"

definition convertToUSD :: "string \<Rightarrow> real \<Rightarrow> real" where
  "convertToUSD cur amount =
     amount * (case map_of [(''BTC'', 45000), (''ETH'', 3000), (''BNB'', 300),
                            (''EUR'', 1.1), (''GBP'', 1.3)] cur of
                 None \<Rightarrow> 1 | Some rate \<Rightarrow> rate)"

definition balance_value :: "balance \<Rightarrow> real" where
  "balance_value b =
     (if currency b = ''USD'' \<or> currency b = ''USDT'' then available b + locked b
      else convertToUSD (currency b) (available b + locked b))"

definition getTotalAccountValue :: "(string \<times> platform_data) list \<Rightarrow> real" where
  "getTotalAccountValue portfolio =
     (let totalValue =
            fold (\<lambda>entry total.
                    case balances (snd entry) of
                      None \<Rightarrow> total
                    | Some bs \<Rightarrow> fold (\<lambda>b t. t + balance_value b) bs total)
                 portfolio 0
      in max totalValue 1000)"

record exposure =
  total :: real
  byAsset :: "string \<rightharpoonup> real"
  bySector :: "string \<rightharpoonup> real"

text \<open>
  The state of the loop over all positions is \<open>(totalValue, byAsset, bySector)\<close>, still in
  currency units; \<open>m(k \<mapsto> (m.get(k) || 0) + value)\<close> is the update of either map.
\<close>

definition map_add_value :: "(string \<rightharpoonup> real) \<Rightarrow> string \<Rightarrow> real \<Rightarrow> (string \<rightharpoonup> real)" where
  "map_add_value m k v = m(k \<mapsto> or_default (m k) 0 + v)"

definition exposure_step ::
  "holding \<Rightarrow> real \<times> (string \<rightharpoonup> real) \<times> (string \<rightharpoonup> real) \<Rightarrow> real \<times> (string \<rightharpoonup> real) \<times> (string \<rightharpoonup> real)"
where
  "exposure_step position st =
     (case st of (totalValue, assets, sectors) \<Rightarrow>
        let v = quantity position * currentPrice position
        in (totalValue + v,
            map_add_value assets (holding_symbol position) v,
            (case getAssetSector (holding_symbol position) of
               None \<Rightarrow> sectors
             | Some sector \<Rightarrow> map_add_value sectors sector v)))"

definition getCurrentExposure :: "(string \<times> platform_data) list \<Rightarrow> exposure" where
  "getCurrentExposure portfolio =
     (case fold (\<lambda>entry st.
                   case positions (snd entry) of
                     None \<Rightarrow> st
                   | Some ps \<Rightarrow> fold exposure_step ps st)
                portfolio (0, Map.empty, Map.empty)
      of (totalValue, assets, sectors) \<Rightarrow>
        let totalAccountValue = getTotalAccountValue portfolio
        in \<lparr>total = (if totalAccountValue > 0 then totalValue / totalAccountValue else 0),
            byAsset = (\<lambda>k. map_option (\<lambda>v. v / totalAccountValue) (assets k)),
            bySector = (\<lambda>k. map_option (\<lambda>v. v / totalAccountValue) (sectors k))\<rparr>)"

subsection \<open>checkPortfolioExposure\<close>

text \<open>
  \<open>Number.prototype.toFixed(1)\<close>: the decimal numeral with one fraction digit nearest to
  the number, the larger one on a tie, after a minus sign for a negative number. (From
  \<open>1e21\<close> on JavaScript switches to exponent notation; that range is not modelled.)
\<close>

fun string_of_nat :: "nat \<Rightarrow> string" where
  "string_of_nat n =
     (if n < 10 then [''0123456789'' ! n]
      else string_of_nat (n div 10) @ [''0123456789'' ! (n mod 10)])"

definition toFixed1 :: "real \<Rightarrow> string" where
  "toFixed1 x =
     (let a = (if x < 0 then - x else x);
          n = nat \<lfloor>a * 10 + 1 / 2\<rfloor>
      in (if x < 0 then ''-'' else '''') @ string_of_nat (n div 10) @ ''.'' @ string_of_nat (n mod 10))"

text \<open>The template fragment \<open>${(x * 100).toFixed(1)}%\<close>.\<close>

definition percent :: "real \<Rightarrow> string" where
  "percent x = toFixed1 (x * 100) @ ''%''"

record exposure_check =
  allowed :: bool
  check_reason :: string
  check_currentExposure :: "exposure option"
  availableCapacity :: "real option"

definition rejected :: "string \<Rightarrow> exposure_check" where
  "rejected r =
     \<lparr>allowed = False, check_reason = r, check_currentExposure = None, availableCapacity = None\<rparr>"

text \<open>
  The two values awaited first, \<open>getConfig()\<close> and \<open>getCurrentExposure()\<close>, are arguments.
  Reading \<open>config.riskSettings.maxTotalExposure\<close> throws when \<open>riskSettings\<close> is absent, and
  the \<open>catch\<close> branch answers for it.
\<close>

definition checkPortfolioExposure :: "trading_config \<Rightarrow> exposure \<Rightarrow> string \<Rightarrow> exposure_check" where
  "checkPortfolioExposure config currentExposure symbol =
     (case riskSettings config of
        None \<Rightarrow> rejected ''Portfolio exposure check failed''
      | Some rs \<Rightarrow>
          let maxTotalExposure = maxTotalExposure rs;
              maxSingleAssetExposure = maxPositionSize rs;
              assetExposure = or_default (byAsset currentExposure symbol) 0
          in if total currentExposure \<ge> maxTotalExposure then
               rejected (''Total portfolio exposure ('' @ percent (total currentExposure)
                         @ '') exceeds limit ('' @ percent maxTotalExposure @ '')'')
             else if assetExposure \<ge> maxSingleAssetExposure then
               rejected (''Exposure to '' @ symbol @ '' ('' @ percent assetExposure
                         @ '') exceeds single asset limit ('' @ percent maxSingleAssetExposure @ '')'')
             else
               (case getAssetSector symbol of
                  Some sector \<Rightarrow>
                    let sectorExposure = or_default (bySector currentExposure sector) 0;
                        maxSectorExposure = or_default (maxSectorExposure rs) 0.3
                    in if sectorExposure \<ge> maxSectorExposure then
                         rejected (''Exposure to '' @ sector @ '' sector ('' @ percent sectorExposure
                                   @ '') exceeds limit ('' @ percent maxSectorExposure @ '')'')
                       else
                         \<lparr>allowed = True, check_reason = '''',
                          check_currentExposure = Some currentExposure,
                          availableCapacity = Some (maxTotalExposure - total currentExposure)\<rparr>
                | None \<Rightarrow>
                    \<lparr>allowed = True, check_reason = '''',
                     check_currentExposure = Some currentExposure,
                     availableCapacity = Some (maxTotalExposure - total currentExposure)\<rparr>))"

subsection \<open>The analysis under evaluation\<close>

text \<open>
  The object \<open>analysis\<close> handed to the evaluator. \<open>an_technical\<close> is
  \<open>analysis.analysis.technical.overall.confidence\<close>, \<open>None\<close> when \<open>technical\<close> or its
  \<open>overall\<close> is missing; likewise \<open>an_sentiment\<close>; \<open>an_machineLearning\<close> is the pair of
  \<open>confidence\<close> and \<open>volatility\<close> of \<open>analysis.analysis.machineLearning\<close>.
\<close>

record analysis =
  an_signal :: string
  an_confidence :: jsnum
  an_technical :: "jsnum option"
  an_sentiment :: "jsnum option"
  an_machineLearning :: "(jsnum \<times> string) option"

text \<open>
  The end of \<open>analyzeMarket\<close>: once the three sources have answered, the decision of
  \<open>combineSignals\<close> and the sources themselves are stored in the analysis.
\<close>

definition analyzeMarket :: "technical_obj \<Rightarrow> sentiment_obj \<Rightarrow> predictions option \<Rightarrow> analysis" where
  "analyzeMarket technicalSignals sentimentSignals outcome =
     (let mlPredictions = performMLAnalysis outcome;
          finalDecision = combineSignals technicalSignals sentimentSignals mlPredictions
      in \<lparr>an_signal = final_signal finalDecision,
          an_confidence = final_confidence finalDecision,
          an_technical = Some (overall_confidence (technical_overall technicalSignals)),
          an_sentiment = Some (sentiment_confidence (sentiment_overall sentimentSignals)),
          an_machineLearning = Some (ml_confidence mlPredictions, volatility mlPredictions)\<rparr>)"

subsection \<open>assessSignalQuality\<close>

text \<open>Only \<open>score\<close> of the result is read by the evaluator; the log strings are left out.\<close>

definition assessSignalQuality :: "analysis \<Rightarrow> jsnum" where
  "assessSignalQuality a =
     (let score0 = js_add (Num 0) (js_mul (an_confidence a) (Num 0.4));
          score1 = (case an_technical a of
                      Some c \<Rightarrow> js_add score0 (js_mul c (Num 0.3)) | None \<Rightarrow> score0);
          score2 = (case an_sentiment a of
                      Some c \<Rightarrow> js_add score1 (js_mul c (Num 0.2)) | None \<Rightarrow> score1);
          score3 = (case an_machineLearning a of
                      Some m \<Rightarrow> js_add score2 (js_mul (fst m) (Num 0.1)) | None \<Rightarrow> score2)
      in js_min score3 (Num 1.0))"

subsection \<open>calculatePositionSize\<close>

definition calculateKellyPosition :: "env \<Rightarrow> analysis \<Rightarrow> string \<Rightarrow> jsnum" where
  "calculateKellyPosition e a symbol =
     (let winRate = getHistoricalWinRate e symbol (an_signal a);
          avgWin = getAverageWin e symbol (an_signal a);
          avgLoss = getAverageLoss e symbol (an_signal a)
      in if avgLoss \<le> 0 then Num 0
         else
           let b = js_div (Num avgWin) (Num avgLoss);
               p = winRate;
               q = 1 - p;
               kellyFraction = js_div (js_sub (js_mul b (Num p)) (Num q)) b
           in js_max (Num 0) (js_min kellyFraction (Num 0.05)))"

definition getTotalPortfolioValue :: "env \<Rightarrow> real" where
  "getTotalPortfolioValue e = getTotalAccountValue (portfolioData e)"

text \<open>
  With \<open>riskSettings\<close> absent, reading \<open>config.riskSettings.maxPositionSize\<close> throws and
  the \<open>catch\<close> branch returns \<open>0\<close>.
\<close>

definition calculatePositionSize :: "env \<Rightarrow> analysis \<Rightarrow> string \<Rightarrow> jsnum" where
  "calculatePositionSize e a symbol =
     (case riskSettings (tradingConfig e) of
        None \<Rightarrow> Num 0
      | Some rs \<Rightarrow>
          let portfolioValue = getTotalPortfolioValue e;
              baseSize0 = Num (maxPositionSize rs);
              confidenceAdjustment = js_add (js_mul (an_confidence a) (Num 0.8)) (Num 0.2);
              baseSize1 = js_mul baseSize0 confidenceAdjustment;
              volatility = getAssetVolatility e symbol;
              volatilityAdjustment = max 0.3 (1 - volatility);
              baseSize2 = js_mul baseSize1 (Num volatilityAdjustment);
              marketConditions = assessMarketConditions (getMarketConditions e);
              marketAdjustment = (if market_level marketConditions = HIGH then 0.5
                                  else if market_level marketConditions = MEDIUM then 0.7 else 1.0);
              baseSize3 = js_mul baseSize2 (Num marketAdjustment);
              baseSize = (if useKellyCriterion rs
                          then js_min baseSize3 (calculateKellyPosition e a symbol)
                          else baseSize3);
              minTradeValue = or_default (minTradeValue rs) 10;
              calculatedValue = js_mul baseSize (Num portfolioValue)
          in if js_lt calculatedValue (Num minTradeValue) then Num 0
             else
               let maxTradeValue = or_default (maxTradeValue rs) (portfolioValue * 0.1)
               in js_min baseSize (js_div (Num maxTradeValue) (Num portfolioValue)))"

subsection \<open>Correlation and platforms\<close>

record correlation_risk =
  correlation_level :: level
  totalCorrelatedExposure :: real
  maxCorrelation :: real

definition checkCorrelationRisk :: "env \<Rightarrow> string \<Rightarrow> correlation_risk" where
  "checkCorrelationRisk e symbol =
     (case fold (\<lambda>position (tot, mx).
                   let correlation = getCorrelation e symbol (position_symbol position)
                   in if \<bar>correlation\<bar> > 0.7
                      then (tot + position_exposure position, max mx \<bar>correlation\<bar>)
                      else (tot, mx))
                (getCurrentPositions e) (0, 0)
      of (tot, mx) \<Rightarrow>
        \<lparr>correlation_level = (if tot > 0.3 then HIGH else if tot > 0.15 then MEDIUM else LOW),
         totalCorrelatedExposure = tot, maxCorrelation = mx\<rparr>)"

definition assessPlatformRisk :: "env \<Rightarrow> string \<Rightarrow> string list" where
  "assessPlatformRisk e symbol =
     (let enabledPlatforms = (case platforms (tradingConfig e) of None \<Rightarrow> [] | Some ps \<Rightarrow> ps)
      in filter (\<lambda>name. platformSupportsSymbol e name symbol
                        \<and> checkPlatformHealth e name
                        \<and> assessIndividualPlatformRisk e name symbol \<noteq> HIGH)
                enabledPlatforms)"

definition isSymbolAllowed :: "env \<Rightarrow> string \<Rightarrow> bool" where
  "isSymbolAllowed e symbol =
     (let whitelist = (case tradingSettings (tradingConfig e) of
                         None \<Rightarrow> None | Some ts \<Rightarrow> allowedSymbols ts);
          blacklist = (case tradingSettings (tradingConfig e) of
                         None \<Rightarrow> None | Some ts \<Rightarrow> blockedSymbols ts)
      in if (case blacklist of None \<Rightarrow> False | Some bl \<Rightarrow> symbol \<in> set bl) then False
         else (case whitelist of
                 None \<Rightarrow> True
               | Some wl \<Rightarrow> if length wl > 0 then symbol \<in> set wl else True))"

subsection \<open>evaluateOpportunity\<close>

definition calculateRiskLevel :: "analysis \<Rightarrow> exposure_check \<Rightarrow> correlation_risk \<Rightarrow> level" where
  "calculateRiskLevel a exposureCheck correlationRisk =
     (let factors =
            (if js_lt (an_confidence a) (Num 0.7) then [''LOW_CONFIDENCE''] else [])
            @ (case check_currentExposure exposureCheck of
                 Some ce \<Rightarrow> if total ce > 0.8 then [''HIGH_EXPOSURE''] else []
               | None \<Rightarrow> [])
            @ (if correlation_level correlationRisk = HIGH then [''HIGH_CORRELATION''] else [])
            @ (case an_machineLearning a of
                 Some m \<Rightarrow> if snd m = ''HIGH'' then [''HIGH_VOLATILITY''] else []
               | None \<Rightarrow> [])
      in if ''HIGH_EXPOSURE'' \<in> set factors \<or> ''HIGH_CORRELATION'' \<in> set factors then HIGH
         else if length factors \<ge> 2 then MEDIUM
         else LOW)"

definition getTradeConditions :: "analysis \<Rightarrow> level \<Rightarrow> string list" where
  "getTradeConditions a riskLevel =
     (if riskLevel = HIGH
        then [''Reduced position size due to high risk'', ''Tighter stop loss required'']
        else [])
     @ (if js_lt (an_confidence a) (Num 0.8)
          then [''Limit order recommended due to lower confidence''] else [])
     @ (case an_machineLearning a of
          Some m \<Rightarrow> if snd m = ''HIGH'' then [''Extra caution due to high volatility''] else []
        | None \<Rightarrow> [])"

record risk_assessment =
  approved :: bool
  recommendedSize :: jsnum
  reason :: string
  riskLevel :: level
  approvedPlatforms :: "string list"
  conditions :: "string list"

definition refusal :: "string \<Rightarrow> risk_assessment" where
  "refusal r =
     \<lparr>approved = False, recommendedSize = Num 0, reason = r, riskLevel = UNKNOWN,
      approvedPlatforms = [], conditions = []\<rparr>"

text \<open>
  Each gate returns the initial assessment with only \<open>reason\<close> set. No call below can throw
  on the inputs of this model, so the outer \<open>catch\<close> has no branch here.
\<close>

definition evaluateOpportunity :: "env \<Rightarrow> analysis \<Rightarrow> string \<Rightarrow> risk_assessment" where
  "evaluateOpportunity e a symbol =
     (if \<not> isSymbolAllowed e symbol then refusal ''Symbol not in allowed trading list''
      else
        let marketRisk = assessMarketConditions (getMarketConditions e)
        in if market_level marketRisk = EXTREME then refusal ''Extreme market conditions detected''
        else
          let exposureCheck = checkPortfolioExposure (tradingConfig e)
                                (getCurrentExposure (portfolioData e)) symbol
          in if \<not> allowed exposureCheck then refusal (check_reason exposureCheck)
          else if js_lt (assessSignalQuality a) (Num 0.6)
            then refusal ''Signal quality too low for trading''
          else
            let positionSize = calculatePositionSize e a symbol
            in if js_le positionSize (Num 0)
              then refusal ''Calculated position size too small to trade''
            else
              let correlationRisk = checkCorrelationRisk e symbol
              in if correlation_level correlationRisk = HIGH
                then refusal ''High correlation with existing positions''
              else
                let approvedPlatforms = assessPlatformRisk e symbol
                in if length approvedPlatforms = 0
                  then refusal ''No approved platforms for this trade''
                else
                  let riskLevel = calculateRiskLevel a exposureCheck correlationRisk
                  in \<lparr>approved = True, recommendedSize = positionSize, reason = '''',
                      riskLevel = riskLevel, approvedPlatforms = approvedPlatforms,
                      conditions = getTradeConditions a riskLevel\<rparr>)"

text \<open>
  The helper methods as the source has them: fixed values standing in for market data,
  around a given configuration and portfolio. \<open>isMarketHours()\<close> returns an object, which
  is truthy; \<open>getCurrentPositions\<close> returns no position, so the random stand-in for
  \<open>getCorrelation\<close> is never called and any value does for it.
\<close>

definition source_env :: "trading_config \<Rightarrow> (string \<times> platform_data) list \<Rightarrow> env" where
  "source_env config portfolio =
     \<lparr>tradingConfig = config, portfolioData = portfolio,
      getMarketConditions =
        Some \<lparr>mc_volatility = 0.2, majorEvents = [], isMarketHours = True, liquidityScore = 0.8\<rparr>,
      getAssetVolatility = (\<lambda>symbol. 0.3),
      getHistoricalWinRate = (\<lambda>symbol sg. 0.55),
      getAverageWin = (\<lambda>symbol sg. 0.03),
      getAverageLoss = (\<lambda>symbol sg. 0.02),
      getCurrentPositions = [],
      getCorrelation = (\<lambda>symbol1 symbol2. 0),
      platformSupportsSymbol = (\<lambda>platform symbol. True),
      checkPlatformHealth = (\<lambda>platform. True),
      assessIndividualPlatformRisk = (\<lambda>platform symbol. LOW)\<rparr>"

section \<open>The specification's wording\<close>

text \<open>
  The bucket a label belongs to, as the specification words it: a label containing
  \<open>BUY\<close> belongs to BUY, one containing \<open>SELL\<close> to SELL, every other label to HOLD.
\<close>

definition spec_bucket :: "string \<Rightarrow> string" where
  "spec_bucket label =
     (if js_includes label ''BUY'' then ''BUY''
      else if js_includes label ''SELL'' then ''SELL''
      else ''HOLD'')"

text \<open>The strengths of the signals of one bucket, in the order of the signals.\<close>

definition spec_bucket_strengths :: "string \<Rightarrow> (string \<times> signal_obj) list \<Rightarrow> real list" where
  "spec_bucket_strengths b signals =
     map (\<lambda>entry. strength (snd entry))
         (filter (\<lambda>entry. spec_bucket (signal (snd entry)) = b) signals)"

text \<open>Their sum, added up in that order in doubles.\<close>

definition spec_bucket_sum :: "string \<Rightarrow> (string \<times> signal_obj) list \<Rightarrow> real" where
  "spec_bucket_sum b signals = reduce_sum (spec_bucket_strengths b signals)"

text \<open>
  The score of a bucket as the specification words it: each source whose verdict is the
  label contributes its strength times its weight times its own confidence.
\<close>

definition spec_confidence_score :: "string \<Rightarrow> technical_obj \<Rightarrow> sentiment_obj \<Rightarrow> ml_obj \<Rightarrow> jsnum" where
  "spec_confidence_score label technical sentiment ml =
     js_add
       (js_add
          (if overall_signal (technical_overall technical) = label
             then js_mul (js_mul (to_number (overall_strength (technical_overall technical))) (Num 0.5))
                         (overall_confidence (technical_overall technical))
           else Num 0)
          (if signal (sentiment_signal (sentiment_overall sentiment)) = label
             then js_mul (js_mul (Num (strength (sentiment_signal (sentiment_overall sentiment))))
                                 (Num 0.3))
                         (sentiment_confidence (sentiment_overall sentiment))
           else Num 0))
       (if signal (ml_signal ml) = label
          then js_mul (js_mul (Num (strength (ml_signal ml))) (Num 0.2)) (ml_confidence ml)
        else Num 0)"

text \<open>The same sum without the confidence factor: strength times weight.\<close>

definition weight_score :: "string \<Rightarrow> technical_obj \<Rightarrow> sentiment_obj \<Rightarrow> ml_obj \<Rightarrow> jsnum" where
  "weight_score label technical sentiment ml =
     js_add
       (js_add
          (if overall_signal (technical_overall technical) = label
             then js_mul (to_number (overall_strength (technical_overall technical))) (Num 0.5)
           else Num 0)
          (if signal (sentiment_signal (sentiment_overall sentiment)) = label
             then js_mul (Num (strength (sentiment_signal (sentiment_overall sentiment)))) (Num 0.3)
           else Num 0))
       (if signal (ml_signal ml) = label
          then js_mul (Num (strength (ml_signal ml))) (Num 0.2)
        else Num 0)"

section \<open>Properties of the rounding\<close>

lemmas fl_eval =
  fl_def floor_log2_def round_even_def bit_length.simps fadd_def fsub_def fmul_def fdiv_def Let_def

lemma bit_length_bounds:
  "0 < n \<Longrightarrow> 2 ^ (bit_length n - 1) \<le> n \<and> n < 2 ^ bit_length n"
proof (induction n rule: bit_length.induct)
  case (1 n)
  show ?case
  proof (cases "n div 2 = 0")
    case True
    with "1.prems" have "n = 1"
      by (simp add: div_eq_0_iff)
    then show ?thesis
      by (simp add: bit_length.simps)
  next
    case False
    then have half: "0 < n div 2"
      by simp
    from "1.IH" [OF _ half] "1.prems"
    have ih: "2 ^ (bit_length (n div 2) - 1) \<le> n div 2" "n div 2 < 2 ^ bit_length (n div 2)"
      by simp_all
    have len: "bit_length n = Suc (bit_length (n div 2))"
      using "1.prems" by (subst bit_length.simps) simp
    have pos: "0 < bit_length (n div 2)"
      using half by (subst bit_length.simps) simp
    then have "(2::nat) ^ bit_length (n div 2) = 2 * 2 ^ (bit_length (n div 2) - 1)"
      by (cases "bit_length (n div 2)") simp_all
    with ih have "2 ^ bit_length (n div 2) \<le> n" "n < 2 * 2 ^ bit_length (n div 2)"
      by linarith+
    then show ?thesis
      by (simp add: len)
  qed
qed

lemma nat_floor_bounds:
  assumes "1 \<le> x"
  shows "0 < nat \<lfloor>x\<rfloor>" and "real (nat \<lfloor>x\<rfloor>) \<le> x" and "x < real (nat \<lfloor>x\<rfloor>) + 1"
proof -
  from assms have "1 \<le> \<lfloor>x\<rfloor>"
    by (simp add: le_floor_iff)
  then have eq: "real (nat \<lfloor>x\<rfloor>) = of_int \<lfloor>x\<rfloor>" and pos: "0 < nat \<lfloor>x\<rfloor>"
    by simp_all
  show "0 < nat \<lfloor>x\<rfloor>"
    by (rule pos)
  show "real (nat \<lfloor>x\<rfloor>) \<le> x"
    unfolding eq by (rule of_int_floor_le)
  show "x < real (nat \<lfloor>x\<rfloor>) + 1"
    unfolding eq by linarith
qed

lemma nat_ceiling_bounds:
  assumes "1 < y"
  shows "0 < nat (\<lceil>y\<rceil> - 1)" and "real (nat (\<lceil>y\<rceil> - 1)) < y" and "y \<le> real (nat (\<lceil>y\<rceil> - 1)) + 1"
proof -
  from assms have "1 < \<lceil>y\<rceil>"
    by (simp add: less_ceiling_iff)
  then have eq: "real (nat (\<lceil>y\<rceil> - 1)) = of_int \<lceil>y\<rceil> - 1" and pos: "0 < nat (\<lceil>y\<rceil> - 1)"
    by simp_all
  show "0 < nat (\<lceil>y\<rceil> - 1)"
    by (rule pos)
  have "of_int \<lceil>y\<rceil> - 1 < y"
    by linarith
  then show "real (nat (\<lceil>y\<rceil> - 1)) < y"
    unfolding eq .
  have "y \<le> of_int \<lceil>y\<rceil>"
    by linarith
  then show "y \<le> real (nat (\<lceil>y\<rceil> - 1)) + 1"
    unfolding eq by simp
qed

lemma nat_power_bounds_real:
  assumes "2 ^ (k - 1) \<le> n" and "n < 2 ^ k"
  shows "(2::real) ^ (k - 1) \<le> real n" and "real n + 1 \<le> 2 ^ k"
proof -
  from assms(1) have "real (2 ^ (k - 1)) \<le> real n"
    by (simp only: of_nat_le_iff)
  then show "(2::real) ^ (k - 1) \<le> real n"
    by simp
  from assms(2) have "Suc n \<le> 2 ^ k"
    by simp
  then have "real (Suc n) \<le> real (2 ^ k)"
    by (simp only: of_nat_le_iff)
  then show "real n + 1 \<le> 2 ^ k"
    by simp
qed

lemma bit_length_pos: "0 < n \<Longrightarrow> 0 < bit_length n"
  by (subst bit_length.simps) simp

lemma floor_log2_bounds:
  assumes "0 < x"
  shows "2 powi floor_log2 x \<le> x" and "x < 2 powi (floor_log2 x + 1)"
proof -
  have "2 powi floor_log2 x \<le> x \<and> x < 2 powi (floor_log2 x + 1)"
  proof (cases "1 \<le> x")
    case True
    define n where "n = nat \<lfloor>x\<rfloor>"
    note n = nat_floor_bounds [OF True, folded n_def]
    define k where "k = bit_length n"
    from bit_length_bounds [OF n(1)] have b: "2 ^ (k - 1) \<le> n" "n < 2 ^ k"
      unfolding k_def by simp_all
    note r = nat_power_bounds_real [OF b]
    have kpos: "0 < k"
      unfolding k_def by (rule bit_length_pos [OF n(1)])
    have e: "floor_log2 x = int k - 1"
      using True by (simp add: floor_log2_def n_def k_def)
    have "int k - 1 = int (k - 1)"
      using kpos by simp
    then have p1: "(2::real) powi (int k - 1) = 2 ^ (k - 1)"
      by (simp only: power_int_of_nat)
    have "int k - 1 + 1 = int k"
      by simp
    then have p2: "(2::real) powi (int k - 1 + 1) = 2 ^ k"
      by (simp only: power_int_of_nat)
    have "2 ^ (k - 1) \<le> x" and "x < 2 ^ k"
      using n r by linarith+
    then show ?thesis
      unfolding e p1 p2 by simp
  next
    case False
    have y: "1 < 1 / x"
      using False assms by simp
    define n where "n = nat (\<lceil>1 / x\<rceil> - 1)"
    note n = nat_ceiling_bounds [OF y, folded n_def]
    define k where "k = bit_length n"
    from bit_length_bounds [OF n(1)] have b: "2 ^ (k - 1) \<le> n" "n < 2 ^ k"
      unfolding k_def by simp_all
    note r = nat_power_bounds_real [OF b]
    have kpos: "0 < k"
      unfolding k_def by (rule bit_length_pos [OF n(1)])
    have e: "floor_log2 x = - int k"
      using False by (simp add: floor_log2_def n_def k_def)
    have "1 / x \<le> 2 ^ k"
      using n(3) r(2) by linarith
    then have "1 \<le> 2 ^ k * x"
      using assms by (simp add: pos_divide_le_eq)
    then have lower: "1 / 2 ^ k \<le> x"
      by (simp add: pos_divide_le_eq mult.commute)
    have "2 ^ (k - 1) < 1 / x"
      using n(2) r(1) by linarith
    then have "2 ^ (k - 1) * x < 1"
      using assms by (simp add: pos_less_divide_eq)
    then have upper: "x < 1 / 2 ^ (k - 1)"
      by (simp add: pos_less_divide_eq mult.commute)
    have p1: "(2::real) powi (- int k) = 1 / 2 ^ k"
      by (simp only: power_int_minus_divide power_int_of_nat)
    have "- int k + 1 = - int (k - 1)"
      using kpos by simp
    then have p2: "(2::real) powi (- int k + 1) = 1 / 2 ^ (k - 1)"
      by (simp only: power_int_minus_divide power_int_of_nat)
    show ?thesis
      using lower upper unfolding e p1 p2 by simp
  qed
  then show "2 powi floor_log2 x \<le> x" and "x < 2 powi (floor_log2 x + 1)"
    by simp_all
qed

lemma floor_log2_unique:
  assumes "0 < x" and lo: "2 powi e \<le> x" and hi: "x < 2 powi (e + 1)"
  shows "floor_log2 x = e"
proof (rule ccontr)
  assume neq: "floor_log2 x \<noteq> e"
  note b = floor_log2_bounds [OF assms(1)]
  show False
  proof (cases "floor_log2 x < e")
    case True
    then have "(2::real) powi (floor_log2 x + 1) \<le> 2 powi e"
      by (intro power_int_increasing) simp_all
    with b(2) lo show False
      by linarith
  next
    case False
    with neq have "e + 1 \<le> floor_log2 x"
      by simp
    then have "(2::real) powi (e + 1) \<le> 2 powi floor_log2 x"
      by (intro power_int_increasing) simp_all
    with b(1) hi show False
      by linarith
  qed
qed

lemma round_even_of_int: "round_even (of_int m) = m"
  by (simp add: round_even_def)

lemma round_even_lower: "of_int a \<le> y \<Longrightarrow> a \<le> round_even y"
proof -
  assume "of_int a \<le> y"
  then have "a \<le> \<lfloor>y\<rfloor>"
    by (simp add: le_floor_iff)
  then show ?thesis
    by (simp add: round_even_def Let_def)
qed

lemma round_even_upper: "y \<le> of_int b \<Longrightarrow> round_even y \<le> b"
proof -
  assume le: "y \<le> of_int b"
  show ?thesis
  proof (cases "y = of_int b")
    case True
    then show ?thesis
      by (simp add: round_even_of_int)
  next
    case False
    with le have "y < of_int b"
      by simp
    then have "\<lfloor>y\<rfloor> < b"
      by (simp add: floor_less_iff)
    then show ?thesis
      by (simp add: round_even_def Let_def)
  qed
qed

lemma round_even_minus: "round_even (- y) = - round_even y"
proof (cases "y = of_int \<lfloor>y\<rfloor>")
  case True
  then obtain m where "y = of_int m" ..
  then have "round_even (- y) = round_even (of_int (- m))" "round_even y = m"
    by (simp_all add: round_even_of_int)
  then show ?thesis
    by (simp only: round_even_of_int)
next
  case False
  define f where "f = \<lfloor>y\<rfloor>"
  define d where "d = y - of_int f"
  have d: "0 < d" "d < 1"
    using False unfolding d_def f_def by linarith+
  have fm: "\<lfloor>- y\<rfloor> = - f - 1"
    using d unfolding d_def by (intro floor_unique) simp_all
  have dm: "- y - of_int (- f - 1) = 1 - d"
    unfolding d_def by simp
  have ev: "even (- f - 1) \<longleftrightarrow> odd f"
    by simp
  have pos: "round_even y = (if d < 1 / 2 then f else if 1 / 2 < d then f + 1
                             else if even f then f else f + 1)"
    unfolding round_even_def Let_def f_def [symmetric] d_def [symmetric] ..
  have neg: "round_even (- y) = (if 1 - d < 1 / 2 then - f - 1 else if 1 / 2 < 1 - d then - f
                                else if odd f then - f - 1 else - f)"
    unfolding round_even_def Let_def fm dm ev by simp
  show ?thesis
    unfolding pos neg using d by auto
qed

lemma fl_zero [simp]: "fl 0 = 0"
  by (simp add: fl_def)

lemma fl_minus: "fl (- x) = - fl x"
  by (simp add: fl_def Let_def round_even_minus)

lemma fl_nonzero:
  "x \<noteq> 0 \<Longrightarrow>
     fl x = of_int (round_even (x / 2 powi (floor_log2 \<bar>x\<bar> - 52))) * 2 powi (floor_log2 \<bar>x\<bar> - 52)"
  by (simp add: fl_def Let_def)

lemma fl_idem_pos:
  assumes "0 < x"
  shows "fl (fl x) = fl x"
proof -
  define e where "e = floor_log2 x"
  define u :: real where "u = 2 powi (e - 52)"
  define m where "m = round_even (x / u)"
  define v where "v = of_int m * u"
  have u: "0 < u"
    unfolding u_def by simp
  have xabs: "\<bar>x\<bar> = x" and xne: "x \<noteq> 0"
    using assms by simp_all
  have flx: "fl x = v"
    using fl_nonzero [OF xne] by (simp only: xabs e_def u_def m_def v_def)
  have scale: "2 powi e = 2 ^ 52 * u" "2 powi (e + 1) = 2 ^ 53 * u"
    unfolding u_def by (simp_all add: power_int_diff power_int_add)
  from floor_log2_bounds [OF assms] have "2 ^ 52 * u \<le> x" "x < 2 ^ 53 * u"
    unfolding e_def [symmetric] scale by simp_all
  then have q: "2 ^ 52 \<le> x / u" "x / u \<le> 2 ^ 53"
    using u by (simp_all add: pos_le_divide_eq pos_divide_le_eq)
  have mlo: "2 ^ 52 \<le> m"
    unfolding m_def using q(1) by (intro round_even_lower) simp
  have mhi: "m \<le> 2 ^ 53"
    unfolding m_def using q(2) by (intro round_even_upper) simp
  have mreal: "(2::real) ^ 52 \<le> of_int m" "of_int m \<le> (2::real) ^ 53"
  proof -
    from mlo have "(of_int (2 ^ 52) :: real) \<le> of_int m"
      by (simp only: of_int_le_iff)
    then show "(2::real) ^ 52 \<le> of_int m"
      by simp
    from mhi have "(of_int m :: real) \<le> of_int (2 ^ 53)"
      by (simp only: of_int_le_iff)
    then show "of_int m \<le> (2::real) ^ 53"
      by simp
  qed
  have pos: "0 < v"
    unfolding v_def using mreal(1) u by (intro mult_pos_pos) simp_all
  then have vabs: "\<bar>v\<bar> = v" and vne: "v \<noteq> 0"
    by simp_all
  show ?thesis
  proof (cases "m = 2 ^ 53")
    case True
    have val: "v = 2 powi (e + 1)"
      unfolding v_def scale by (simp add: True)
    have fle: "floor_log2 v = e + 1"
    proof (rule floor_log2_unique [OF pos])
      show "2 powi (e + 1) \<le> v"
        by (simp add: val)
      show "v < 2 powi (e + 1 + 1)"
        unfolding val by (intro power_int_strict_increasing) simp_all
    qed
    have pw: "2 powi (e + 1 - 52) = 2 * u"
      unfolding u_def by (simp add: power_int_diff power_int_add)
    have quot: "v / (2 * u) = of_int (2 ^ 52)"
      unfolding v_def using u by (simp add: True)
    have "fl v = of_int (round_even (v / (2 * u))) * (2 * u)"
      using fl_nonzero [OF vne] by (simp only: vabs fle pw)
    also have "\<dots> = of_int (2 ^ 52) * (2 * u)"
      by (simp only: quot round_even_of_int)
    also have "\<dots> = v"
      unfolding v_def by (simp add: True)
    finally show ?thesis
      by (simp only: flx)
  next
    case False
    with mhi have "m < 2 ^ 53"
      by simp
    then have "(of_int m :: real) < of_int (2 ^ 53)"
      by (simp only: of_int_less_iff)
    then have mlt: "of_int m < (2::real) ^ 53"
      by simp
    have fle: "floor_log2 v = e"
    proof (rule floor_log2_unique [OF pos])
      show "2 powi e \<le> v"
        unfolding scale v_def using mreal(1) u by simp
      show "v < 2 powi (e + 1)"
        unfolding scale v_def using mlt u by simp
    qed
    have quot: "v / u = of_int m"
      unfolding v_def using u by simp
    have "fl v = of_int (round_even (v / u)) * u"
      using fl_nonzero [OF vne] by (simp only: vabs fle u_def)
    also have "\<dots> = v"
      by (simp only: quot round_even_of_int) (simp only: v_def)
    finally show ?thesis
      by (simp only: flx)
  qed
qed

text \<open>A double is left as it is: rounding twice is rounding once.\<close>

lemma fl_idem [simp]: "fl (fl x) = fl x"
proof -
  consider "x = 0" | "0 < x" | "x < 0"
    by linarith
  then show ?thesis
  proof cases
    case 1
    then show ?thesis by simp
  next
    case 2
    then show ?thesis by (rule fl_idem_pos)
  next
    case 3
    then have "fl (fl (- x)) = fl (- x)"
      by (intro fl_idem_pos) simp
    then show ?thesis
      by (simp add: fl_minus)
  qed
qed

lemma fadd_zero [simp]: "fadd a 0 = fl a" "fadd 0 a = fl a"
  by (simp_all add: fadd_def)

text \<open>The model reproduces the familiar facts of double arithmetic.\<close>

lemma double_examples:
  "fl 0.1 = 3602879701896397 / 2 ^ 55"
  "fadd 0.1 0.2 = 1351079888211149 / 2 ^ 52"
  "fl 0.3 < fadd 0.1 0.2"
  "fadd 0.5 0.25 = 0.75"
  by (simp_all add: fl_eval)

section \<open>Properties of the operations on numbers\<close>

lemma fsub_self: "fsub a a = 0"
  by (simp add: fsub_def)

lemma fdiv_zero_left: "fdiv 0 b = 0"
  by (simp add: fdiv_def)

text \<open>The result of an operation is a double: rounding it again changes nothing.\<close>

lemma fl_result:
  "fl (fadd a b) = fadd a b"
  "fl (fsub a b) = fsub a b"
  "fl (fmul a b) = fmul a b"
  "fl (fdiv a b) = fdiv a b"
  by (simp_all add: fadd_def fsub_def fmul_def fdiv_def)

text \<open>Adding zero to the result of an operation changes nothing.\<close>

lemma js_add_zero:
  "js_add (Num 0) (Num 0) = Num 0"
  "js_add (Num 0) (js_mul x y) = js_mul x y"
  "js_add (js_mul x y) (Num 0) = js_mul x y"
  "js_add (Num 0) (js_add x y) = js_add x y"
  "js_add (js_add x y) (Num 0) = js_add x y"
  by (cases x; cases y; simp add: signed_inf_def fadd_def fmul_def)+

lemma js_lt_asym: "js_lt x y \<Longrightarrow> \<not> js_lt y x"
  by (cases x; cases y) simp_all

section \<open>Properties of the indicator library\<close>

text \<open>
  Claim C8. Indicator results are aligned to a suffix of the input. For every series and
  every integer period, \<open>calculateSMA\<close> returns \<open>len - period + 1\<close> values when the series
  has at least \<open>period\<close> elements and the empty array otherwise; it is a total function, so
  it never fails. \<open>calculateRSI\<close> returns the empty array whenever the series has fewer than
  \<open>period + 1\<close> elements, in particular for five prices and period 14.
\<close>

theorem indicator_alignment:
  "length (calculateSMA prices period) =
     (if int (length prices) < period then 0 else nat (int (length prices) - period + 1))
   \<and> (int (length prices) < period \<longrightarrow> calculateSMA prices period = [])
   \<and> (int (length prices) < period + 1 \<longrightarrow> calculateRSI prices period = [])
   \<and> (length prices = 5 \<longrightarrow> calculateRSI prices 14 = [])"
  by (simp add: calculateSMA_def calculateRSI_def)

theorem indicator_alignment_witness:
  "calculateSMA [1, 2, 3, 4, 5] 14 = []
   \<and> calculateRSI [1, 2, 3, 4, 5] 14 = []
   \<and> length (calculateSMA [1, 2, 3, 4, 5] 2) = 4"
  using indicator_alignment [of "[1, 2, 3, 4, 5]" 14] indicator_alignment [of "[1, 2, 3, 4, 5]" 2]
  by simp

text \<open>
  Claim C6. Every value of \<open>calculateRSI\<close> should lie in \<open>[0, 100]\<close>, with \<open>100\<close> when the
  average loss is zero. On a flat series both averages are zero, \<open>avgGain / avgLoss\<close> is
  \<open>0 / 0\<close>, and the value returned is \<open>NaN\<close>: fifteen equal prices with the default period.
\<close>

theorem rsi_flat_series_nan:
  "calculateRSI [100, 100, 100, 100, 100, 100, 100, 100, 100, 100, 100, 100, 100, 100, 100] 14
     = [NaN]"
  by (simp add: calculateRSI_def gains_of_def losses_of_def js_slice_def reduce_sum_def
        rsi_value_def js_sub_def fsub_self fdiv_zero_left)

section \<open>Properties of the technical aggregation\<close>

text \<open>The loop fills each array with the strengths of one bucket, in the order met.\<close>

lemma fold_bucket_step:
  "fold bucket_step sigs (bs, ss, hs) =
     (bs @ spec_bucket_strengths ''BUY'' sigs,
      ss @ spec_bucket_strengths ''SELL'' sigs,
      hs @ spec_bucket_strengths ''HOLD'' sigs)"
  by (induction sigs arbitrary: bs ss hs)
     (simp_all add: bucket_step_def Let_def spec_bucket_def spec_bucket_strengths_def)

lemma technical_verdict:
  "evaluateTechnicalSignals sigs =
     (let b = spec_bucket_sum ''BUY'' sigs; s = spec_bucket_sum ''SELL'' sigs;
          h = spec_bucket_sum ''HOLD'' sigs;
          t = fadd (fadd b s) h;
          sc = \<lparr>buy = b, sell = s, hold = h\<rparr>
      in if b > s \<and> b > h then
           \<lparr>overall_signal = ''BUY'', overall_strength = None,
            overall_confidence = js_div (Num b) (Num t), overall_scores = sc\<rparr>
         else if s > b \<and> s > h then
           \<lparr>overall_signal = ''SELL'', overall_strength = None,
            overall_confidence = js_div (Num s) (Num t), overall_scores = sc\<rparr>
         else
           \<lparr>overall_signal = ''HOLD'', overall_strength = None,
            overall_confidence = js_div (Num h) (Num t), overall_scores = sc\<rparr>)"
  by (simp add: evaluateTechnicalSignals_def fold_bucket_step spec_bucket_sum_def Let_def)

lemma spec_bucket_strengths_append:
  "spec_bucket_strengths b (xs @ ys) = spec_bucket_strengths b xs @ spec_bucket_strengths b ys"
  by (simp add: spec_bucket_strengths_def)

lemma spec_bucket_strengths_Cons:
  "spec_bucket_strengths b (x # xs) =
     (if spec_bucket (signal (snd x)) = b then [strength (snd x)] else [])
     @ spec_bucket_strengths b xs"
  by (simp add: spec_bucket_strengths_def)

lemma volume_label_bucket: "spec_bucket (signal (getVolumeSignal va)) = ''HOLD''"
  by (simp add: getVolumeSignal_def spec_bucket_def)



text \<open>
  Claim C10. Bucket membership is decided by label substring. Each array receives the
  strengths of the signals of its label bucket, and each score is the sum of its array;
  \<open>BUY\<close> and \<open>WEAK_BUY\<close> belong to BUY, \<open>SELL\<close> and \<open>WEAK_SELL\<close> to SELL, every
  other label the rules produce to HOLD; the Bollinger rule's weak labels count with their
  side; and a volume signal, wherever it stands among the signals, leaves the BUY and SELL
  sums as they are and joins the addends of the HOLD sum at its place.
\<close>

theorem bucket_membership:
  "overall_scores (evaluateTechnicalSignals sigs) =
     \<lparr>buy = spec_bucket_sum ''BUY'' sigs, sell = spec_bucket_sum ''SELL'' sigs,
      hold = spec_bucket_sum ''HOLD'' sigs\<rparr>
   \<and> (js_includes label ''BUY'' \<longrightarrow> spec_bucket label = ''BUY'')
   \<and> (\<not> js_includes label ''BUY'' \<and> js_includes label ''SELL'' \<longrightarrow> spec_bucket label = ''SELL'')
   \<and> (\<not> js_includes label ''BUY'' \<and> \<not> js_includes label ''SELL'' \<longrightarrow> spec_bucket label = ''HOLD'')
   \<and> spec_bucket ''BUY'' = ''BUY'' \<and> spec_bucket ''WEAK_BUY'' = ''BUY''
   \<and> spec_bucket ''SELL'' = ''SELL'' \<and> spec_bucket ''WEAK_SELL'' = ''SELL''
   \<and> spec_bucket ''HOLD'' = ''HOLD'' \<and> spec_bucket ''NEUTRAL'' = ''HOLD''
   \<and> spec_bucket ''NONE'' = ''HOLD'' \<and> spec_bucket ''STRONG_SIGNAL'' = ''HOLD''
   \<and> spec_bucket ''CONFIRMATION'' = ''HOLD'' \<and> spec_bucket ''WEAK_SIGNAL'' = ''HOLD''
   \<and> spec_bucket (signal (getBollingerSignal price bb)) =
        (if price \<le> lower bb then ''BUY'' else if price \<ge> upper bb then ''SELL''
         else if price > middle bb then ''BUY'' else if price < middle bb then ''SELL''
         else ''HOLD'')
   \<and> spec_bucket (signal (getVolumeSignal va)) = ''HOLD''
   \<and> buy (overall_scores (evaluateTechnicalSignals (pre @ (key, getVolumeSignal va) # post)))
        = buy (overall_scores (evaluateTechnicalSignals (pre @ post)))
   \<and> sell (overall_scores (evaluateTechnicalSignals (pre @ (key, getVolumeSignal va) # post)))
        = sell (overall_scores (evaluateTechnicalSignals (pre @ post)))
   \<and> hold (overall_scores (evaluateTechnicalSignals (pre @ (key, getVolumeSignal va) # post)))
        = reduce_sum (spec_bucket_strengths ''HOLD'' pre @ strength (getVolumeSignal va)
                        # spec_bucket_strengths ''HOLD'' post)
   \<and> hold (overall_scores (evaluateTechnicalSignals (pre @ [(key, getVolumeSignal va)])))
        = fadd (hold (overall_scores (evaluateTechnicalSignals pre))) (strength (getVolumeSignal va))"
proof -
  have scores: "overall_scores (evaluateTechnicalSignals xs) =
      \<lparr>buy = spec_bucket_sum ''BUY'' xs, sell = spec_bucket_sum ''SELL'' xs,
       hold = spec_bucket_sum ''HOLD'' xs\<rparr>" for xs
    by (simp add: technical_verdict Let_def)
  have labels: "spec_bucket ''BUY'' = ''BUY'' \<and> spec_bucket ''WEAK_BUY'' = ''BUY''
      \<and> spec_bucket ''SELL'' = ''SELL'' \<and> spec_bucket ''WEAK_SELL'' = ''SELL''
      \<and> spec_bucket ''HOLD'' = ''HOLD'' \<and> spec_bucket ''NEUTRAL'' = ''HOLD''
      \<and> spec_bucket ''NONE'' = ''HOLD'' \<and> spec_bucket ''STRONG_SIGNAL'' = ''HOLD''
      \<and> spec_bucket ''CONFIRMATION'' = ''HOLD'' \<and> spec_bucket ''WEAK_SIGNAL'' = ''HOLD''"
    by (simp add: spec_bucket_def)
  have bollinger: "spec_bucket (signal (getBollingerSignal price bb)) =
        (if price \<le> lower bb then ''BUY'' else if price \<ge> upper bb then ''SELL''
         else if price > middle bb then ''BUY'' else if price < middle bb then ''SELL''
         else ''HOLD'')"
    by (simp add: getBollingerSignal_def spec_bucket_def)
  have general: "(js_includes label ''BUY'' \<longrightarrow> spec_bucket label = ''BUY'')
      \<and> (\<not> js_includes label ''BUY'' \<and> js_includes label ''SELL'' \<longrightarrow> spec_bucket label = ''SELL'')
      \<and> (\<not> js_includes label ''BUY'' \<and> \<not> js_includes label ''SELL'' \<longrightarrow> spec_bucket label = ''HOLD'')"
    by (simp add: spec_bucket_def)
  have last: "reduce_sum (xs @ [x]) = fadd (reduce_sum xs) x" for xs x
    by (simp add: reduce_sum_def)
  have sums: "spec_bucket_sum ''BUY'' (pre @ (key, getVolumeSignal va) # post)
        = spec_bucket_sum ''BUY'' (pre @ post)"
      "spec_bucket_sum ''SELL'' (pre @ (key, getVolumeSignal va) # post)
        = spec_bucket_sum ''SELL'' (pre @ post)"
      "spec_bucket_sum ''HOLD'' (pre @ (key, getVolumeSignal va) # post)
        = reduce_sum (spec_bucket_strengths ''HOLD'' pre @ strength (getVolumeSignal va)
                        # spec_bucket_strengths ''HOLD'' post)"
      "spec_bucket_sum ''HOLD'' (pre @ [(key, getVolumeSignal va)])
        = fadd (spec_bucket_sum ''HOLD'' pre) (strength (getVolumeSignal va))"
    by (simp_all add: spec_bucket_sum_def spec_bucket_strengths_append
          spec_bucket_strengths_Cons volume_label_bucket last
          spec_bucket_strengths_def [of _ "[]"])
  show ?thesis
    using labels bollinger general
    by (simp add: scores sums volume_label_bucket)
qed

theorem bucket_membership_witness:
  "spec_bucket ''WEAK_BUY'' = ''BUY''
   \<and> spec_bucket ''WEAK_SELL'' = ''SELL''
   \<and> spec_bucket ''CONFIRMATION'' = ''HOLD''
   \<and> overall_scores (evaluateTechnicalSignals
        [(''bbSignal'', \<lparr>signal = ''WEAK_BUY'', strength = 0.4\<rparr>),
         (''volumeSignal'', getVolumeSignal \<lparr>trend = ''INCREASING'', volume_strength = ''HIGH'',
                                            unusualActivity = True\<rparr>),
         (''rsiSignal'', \<lparr>signal = ''SELL'', strength = 0.8\<rparr>)])
       = \<lparr>buy = fl 0.4, sell = fl 0.8, hold = fl 0.9\<rparr>"
  using
    bucket_membership [of
      "[(''bbSignal'', \<lparr>signal = ''WEAK_BUY'', strength = 0.4\<rparr>),
        (''volumeSignal'', getVolumeSignal \<lparr>trend = ''INCREASING'', volume_strength = ''HIGH'',
                                           unusualActivity = True\<rparr>),
        (''rsiSignal'', \<lparr>signal = ''SELL'', strength = 0.8\<rparr>)]"
      "''WEAK_BUY''" 0 "\<lparr>upper = 2, middle = 1, lower = 0\<rparr>"
      "\<lparr>trend = ''INCREASING'', volume_strength = ''HIGH'', unusualActivity = True\<rparr>"
      "[]" "''volumeSignal''" "[]"]
    bucket_membership [of "[]" "''WEAK_SELL''"]
    bucket_membership [of "[]" "''CONFIRMATION''"]
  by (simp add: spec_bucket_sum_def spec_bucket_strengths_def spec_bucket_def getVolumeSignal_def
        reduce_sum_def)

section \<open>Properties of the risk evaluator\<close>

text \<open>
  Claim C5, as stated, has low liquidity raise the level by exactly one step. With calm
  volatility, no event and open markets the level before the liquidity rule is LOW, and
  low liquidity makes it HIGH, two steps up.
\<close>

theorem low_liquidity_two_steps:
  "market_level (assessMarketConditions
      (Some \<lparr>mc_volatility = 0.2, majorEvents = [], isMarketHours = True, liquidityScore = 0.8\<rparr>))
     = LOW
   \<and> market_level (assessMarketConditions
      (Some \<lparr>mc_volatility = 0.2, majorEvents = [], isMarketHours = True, liquidityScore = 0.3\<rparr>))
     = HIGH"
  by (simp add: assessMarketConditions_def)

text \<open>
  Claim C5, amended. The level is LOW when nothing triggers; volatility above 0.25 gives at
  least MEDIUM and above 0.4 at least HIGH; a scheduled event gives at least HIGH; low
  liquidity gives at least HIGH as well: it turns a level of LOW or MEDIUM into HIGH and a
  level of HIGH into EXTREME. The level before the liquidity rule is the level of the same
  conditions with a liquidity score that does not trigger it.
\<close>

theorem market_level_escalation:
  fixes c :: market_conditions
  defines "lv \<equiv> market_level (assessMarketConditions (Some c))"
      and "before \<equiv> market_level (assessMarketConditions (Some (c\<lparr>liquidityScore := 0.5\<rparr>)))"
  shows "(mc_volatility c \<le> 0.25 \<and> majorEvents c = [] \<and> isMarketHours c \<and> liquidityScore c \<ge> 0.5
            \<longrightarrow> lv = LOW)
       \<and> (mc_volatility c > 0.25 \<longrightarrow> lv = MEDIUM \<or> lv = HIGH \<or> lv = EXTREME)
       \<and> (mc_volatility c > 0.4 \<longrightarrow> lv = HIGH \<or> lv = EXTREME)
       \<and> (majorEvents c \<noteq> [] \<longrightarrow> lv = HIGH \<or> lv = EXTREME)
       \<and> (liquidityScore c < 0.5 \<longrightarrow> lv = HIGH \<or> lv = EXTREME)
       \<and> (liquidityScore c < 0.5 \<and> (before = LOW \<or> before = MEDIUM) \<longrightarrow> lv = HIGH)
       \<and> (liquidityScore c < 0.5 \<and> before = HIGH \<longrightarrow> lv = EXTREME)
       \<and> (liquidityScore c \<ge> 0.5 \<longrightarrow> lv = before)"
  unfolding lv_def before_def
  by (simp add: assessMarketConditions_def)

theorem market_level_escalation_witness:
  "market_level (assessMarketConditions
      (Some \<lparr>mc_volatility = 0.2, majorEvents = [], isMarketHours = True, liquidityScore = 0.8\<rparr>))
     = LOW
   \<and> market_level (assessMarketConditions
      (Some \<lparr>mc_volatility = 0.3, majorEvents = [], isMarketHours = True, liquidityScore = 0.3\<rparr>))
     = HIGH
   \<and> market_level (assessMarketConditions
      (Some \<lparr>mc_volatility = 0.5, majorEvents = [], isMarketHours = True, liquidityScore = 0.3\<rparr>))
     = EXTREME
   \<and> market_level (assessMarketConditions
      (Some \<lparr>mc_volatility = 0.2, majorEvents = [''FOMC''], isMarketHours = True, liquidityScore = 0.8\<rparr>))
     = HIGH"
proof -
  have before_event:
    "market_level (assessMarketConditions
       (Some \<lparr>mc_volatility = 0.2, majorEvents = [''FOMC''], isMarketHours = True, liquidityScore = 0.5\<rparr>))
      = HIGH"
    by (simp add: assessMarketConditions_def)
  have before_medium:
    "market_level (assessMarketConditions
       (Some \<lparr>mc_volatility = 0.3, majorEvents = [], isMarketHours = True, liquidityScore = 0.5\<rparr>))
      = MEDIUM"
    by (simp add: assessMarketConditions_def)
  have before_high:
    "market_level (assessMarketConditions
       (Some \<lparr>mc_volatility = 0.5, majorEvents = [], isMarketHours = True, liquidityScore = 0.5\<rparr>))
      = HIGH"
    by (simp add: assessMarketConditions_def)
  show ?thesis
    using
      market_level_escalation [of
        "\<lparr>mc_volatility = 0.2, majorEvents = [], isMarketHours = True, liquidityScore = 0.8\<rparr>"]
      market_level_escalation [of
        "\<lparr>mc_volatility = 0.3, majorEvents = [], isMarketHours = True, liquidityScore = 0.3\<rparr>"]
      market_level_escalation [of
        "\<lparr>mc_volatility = 0.5, majorEvents = [], isMarketHours = True, liquidityScore = 0.3\<rparr>"]
      market_level_escalation [of
        "\<lparr>mc_volatility = 0.2, majorEvents = [''FOMC''], isMarketHours = True, liquidityScore = 0.8\<rparr>"]
      before_medium before_high before_event
    by simp
qed

text \<open>
  Claim C7. With risk settings present, the exposure gate rejects as soon as a measured
  exposure reaches its cap, the caps being tried in the order total, asset, sector, and
  the reason names the measured value and the cap of the first one reached, both as
  percentages with one decimal. The asset cap is \<open>maxPositionSize\<close>; the sector cap is
  \<open>maxSectorExposure\<close> when configured and not zero, and \<open>0.3\<close> otherwise; the sector
  is checked for symbols that have one. With a total cap of 0.8 and a total exposure of
  0.85 the reason cites 85.0% and 80.0%.
\<close>

theorem exposure_gate_rejects:
  fixes config :: trading_config and ce :: exposure and symbol :: string
  assumes settings: "riskSettings config = Some rs"
  defines "asset \<equiv> or_default (byAsset ce symbol) 0"
      and "cap \<equiv> or_default (maxSectorExposure rs) 0.3"
  shows "(total ce \<ge> maxTotalExposure rs
            \<or> asset \<ge> maxPositionSize rs
            \<or> (\<exists>sector. getAssetSector symbol = Some sector
                  \<and> or_default (bySector ce sector) 0 \<ge> cap)
          \<longrightarrow> \<not> allowed (checkPortfolioExposure config ce symbol))
       \<and> (total ce \<ge> maxTotalExposure rs \<longrightarrow>
            checkPortfolioExposure config ce symbol =
              rejected (''Total portfolio exposure ('' @ percent (total ce)
                        @ '') exceeds limit ('' @ percent (maxTotalExposure rs) @ '')''))
       \<and> (total ce < maxTotalExposure rs \<and> asset \<ge> maxPositionSize rs \<longrightarrow>
            checkPortfolioExposure config ce symbol =
              rejected (''Exposure to '' @ symbol @ '' ('' @ percent asset
                        @ '') exceeds single asset limit ('' @ percent (maxPositionSize rs) @ '')''))
       \<and> (\<forall>sector sx. total ce < maxTotalExposure rs \<and> asset < maxPositionSize rs
            \<and> getAssetSector symbol = Some sector \<and> sx = or_default (bySector ce sector) 0
            \<and> sx \<ge> cap \<longrightarrow>
            checkPortfolioExposure config ce symbol =
              rejected (''Exposure to '' @ sector @ '' sector ('' @ percent sx
                        @ '') exceeds limit ('' @ percent cap @ '')''))
       \<and> (\<forall>c. maxSectorExposure rs = Some c \<and> c \<noteq> 0 \<longrightarrow> cap = c)
       \<and> (maxTotalExposure rs = 0.8 \<and> total ce = 0.85 \<longrightarrow>
            \<not> allowed (checkPortfolioExposure config ce symbol)
            \<and> check_reason (checkPortfolioExposure config ce symbol)
                = ''Total portfolio exposure (85.0%) exceeds limit (80.0%)'')"
proof -
  have general:
    "(total ce \<ge> maxTotalExposure rs
        \<or> asset \<ge> maxPositionSize rs
        \<or> (\<exists>sector. getAssetSector symbol = Some sector
              \<and> or_default (bySector ce sector) 0 \<ge> cap)
      \<longrightarrow> \<not> allowed (checkPortfolioExposure config ce symbol))
     \<and> (total ce \<ge> maxTotalExposure rs \<longrightarrow>
          checkPortfolioExposure config ce symbol =
            rejected (''Total portfolio exposure ('' @ percent (total ce)
                      @ '') exceeds limit ('' @ percent (maxTotalExposure rs) @ '')''))
     \<and> (total ce < maxTotalExposure rs \<and> asset \<ge> maxPositionSize rs \<longrightarrow>
          checkPortfolioExposure config ce symbol =
            rejected (''Exposure to '' @ symbol @ '' ('' @ percent asset
                      @ '') exceeds single asset limit ('' @ percent (maxPositionSize rs) @ '')''))
     \<and> (\<forall>sector sx. total ce < maxTotalExposure rs \<and> asset < maxPositionSize rs
          \<and> getAssetSector symbol = Some sector \<and> sx = or_default (bySector ce sector) 0
          \<and> sx \<ge> cap \<longrightarrow>
          checkPortfolioExposure config ce symbol =
            rejected (''Exposure to '' @ sector @ '' sector ('' @ percent sx
                      @ '') exceeds limit ('' @ percent cap @ '')''))
     \<and> (\<forall>c. maxSectorExposure rs = Some c \<and> c \<noteq> 0 \<longrightarrow> cap = c)"
    unfolding asset_def cap_def
    using settings
    by (auto simp add: checkPortfolioExposure_def rejected_def Let_def or_default_def
          split: option.splits)
  have pct: "percent 0.85 = ''85.0%''" "percent 0.8 = ''80.0%''"
    by (simp_all add: percent_def toFixed1_def)
  have scenario:
    "\<not> allowed (checkPortfolioExposure config ce symbol)
     \<and> check_reason (checkPortfolioExposure config ce symbol)
         = ''Total portfolio exposure (85.0%) exceeds limit (80.0%)''"
    if caps: "maxTotalExposure rs = 0.8" and measured: "total ce = 0.85"
  proof -
    have "total ce \<ge> maxTotalExposure rs"
      by (simp add: caps measured)
    with general have "checkPortfolioExposure config ce symbol =
        rejected (''Total portfolio exposure ('' @ percent 0.85
                  @ '') exceeds limit ('' @ percent 0.8 @ '')'')"
      by (simp only: caps measured)
    then show ?thesis
      by (simp only: pct) (simp add: rejected_def)
  qed
  from general scenario show ?thesis
    by (intro conjI impI) (blast | (elim conjE, simp))+
qed

theorem exposure_gate_rejects_witness:
  "checkPortfolioExposure
     \<lparr>riskSettings = Some \<lparr>maxPositionSize = 0.05, maxTotalExposure = 0.8,
        maxSectorExposure = Some 0.25, useKellyCriterion = False, minTradeValue = None,
        maxTradeValue = None\<rparr>,
      platforms = Some [''binance''], tradingSettings = None\<rparr>
     \<lparr>total = 0.85, byAsset = Map.empty, bySector = Map.empty\<rparr> ''BTC''
    = rejected ''Total portfolio exposure (85.0%) exceeds limit (80.0%)''
   \<and> checkPortfolioExposure
     \<lparr>riskSettings = Some \<lparr>maxPositionSize = 0.05, maxTotalExposure = 0.8,
        maxSectorExposure = Some 0.25, useKellyCriterion = False, minTradeValue = None,
        maxTradeValue = None\<rparr>,
      platforms = Some [''binance''], tradingSettings = None\<rparr>
     \<lparr>total = 0.4, byAsset = [''BTC'' \<mapsto> 0.0625], bySector = [''Cryptocurrency'' \<mapsto> 0.3]\<rparr> ''BTC''
    = rejected ''Exposure to BTC (6.3%) exceeds single asset limit (5.0%)''
   \<and> checkPortfolioExposure
     \<lparr>riskSettings = Some \<lparr>maxPositionSize = 0.05, maxTotalExposure = 0.8,
        maxSectorExposure = Some 0.25, useKellyCriterion = False, minTradeValue = None,
        maxTradeValue = None\<rparr>,
      platforms = Some [''binance''], tradingSettings = None\<rparr>
     \<lparr>total = 0.4, byAsset = [''BTC'' \<mapsto> 0.01], bySector = [''Cryptocurrency'' \<mapsto> 0.3]\<rparr> ''BTC''
    = rejected ''Exposure to Cryptocurrency sector (30.0%) exceeds limit (25.0%)''"
proof -
  let ?rs = "\<lparr>maxPositionSize = 0.05, maxTotalExposure = 0.8,
        maxSectorExposure = Some 0.25, useKellyCriterion = False, minTradeValue = None,
        maxTradeValue = None\<rparr>"
  let ?config = "\<lparr>riskSettings = Some ?rs, platforms = Some [''binance''], tradingSettings = None\<rparr>"
  have settings: "riskSettings ?config = Some ?rs"
    by simp
  have pct: "percent 0.85 = ''85.0%''" "percent 0.8 = ''80.0%''" "percent 0.0625 = ''6.3%''"
      "percent 0.05 = ''5.0%''" "percent 0.3 = ''30.0%''" "percent 0.25 = ''25.0%''"
    by (simp_all add: percent_def toFixed1_def)
  have sector: "getAssetSector ''BTC'' = Some ''Cryptocurrency''"
    by (simp add: getAssetSector_def)
  show ?thesis
    using
      exposure_gate_rejects [OF settings,
        of "\<lparr>total = 0.85, byAsset = Map.empty, bySector = Map.empty\<rparr>" "''BTC''"]
      exposure_gate_rejects [OF settings,
        of "\<lparr>total = 0.4, byAsset = [''BTC'' \<mapsto> 0.0625], bySector = [''Cryptocurrency'' \<mapsto> 0.3]\<rparr>"
           "''BTC''"]
      exposure_gate_rejects [OF settings,
        of "\<lparr>total = 0.4, byAsset = [''BTC'' \<mapsto> 0.01], bySector = [''Cryptocurrency'' \<mapsto> 0.3]\<rparr>"
           "''BTC''"]
      pct sector
    by (simp add: or_default_def)
qed

section \<open>Properties of the decision combiner\<close>

lemma fmul_zero_left: "fmul 0 b = 0"
  by (simp add: fmul_def)

text \<open>The filter and the fold over the three weighted sources, written out.\<close>

lemma bucket_score_sources:
  "bucket_score label
     [weigh_overall (technical_overall technical) 0.5,
      weigh_signal (sentiment_signal (sentiment_overall sentiment)) 0.3,
      weigh_signal (ml_signal ml) 0.2]
   = weight_score label technical sentiment ml"
  by (simp add: bucket_score_def weight_score_def weigh_overall_def weigh_signal_def
        to_number_def js_add_zero fl_result)

lemma weight_score_add_zero:
  "js_add (weight_score label technical sentiment ml) (Num 0)
     = weight_score label technical sentiment ml"
  by (simp add: weight_score_def js_add_zero)

text \<open>The three weights sum to one in doubles too, so the neutral weight is zero.\<close>

lemma total_weight:
  "foldl (\<lambda>sum s. fadd sum (w_weight s)) 0
     [weigh_overall ov 0.5, weigh_signal sg1 0.3, weigh_signal sg2 0.2] = 1"
  by (simp add: weigh_overall_def weigh_signal_def fl_eval)

lemma combineSignals_scores:
  "finalScores (reasoning (combineSignals technical sentiment ml)) =
     \<lparr>fs_buy = weight_score ''BUY'' technical sentiment ml,
      fs_sell = weight_score ''SELL'' technical sentiment ml,
      fs_hold = weight_score ''HOLD'' technical sentiment ml\<rparr>"
  unfolding combineSignals_def Let_def bucket_score_sources total_weight fsub_self
    fmul_zero_left weight_score_add_zero
  by (simp split: prod.splits)

lemma combineSignals_signal:
  "final_signal (combineSignals technical sentiment ml) =
     (let b = weight_score ''BUY'' technical sentiment ml;
          s = weight_score ''SELL'' technical sentiment ml;
          h = weight_score ''HOLD'' technical sentiment ml
      in if js_gt b s \<and> js_gt b h \<and> js_gt b (Num 0.6) then ''BUY''
         else if js_gt s b \<and> js_gt s h \<and> js_gt s (Num 0.6) then ''SELL''
         else ''HOLD'')"
  unfolding combineSignals_def Let_def bucket_score_sources total_weight fsub_self
    fmul_zero_left weight_score_add_zero
  by (simp split: prod.splits)

lemma combineSignals_confidence:
  "final_confidence (combineSignals technical sentiment ml) =
     (let b = weight_score ''BUY'' technical sentiment ml;
          s = weight_score ''SELL'' technical sentiment ml;
          h = weight_score ''HOLD'' technical sentiment ml
      in if js_gt b s \<and> js_gt b h \<and> js_gt b (Num 0.6) then js_min b (Num 0.95)
         else if js_gt s b \<and> js_gt s h \<and> js_gt s (Num 0.6) then js_min s (Num 0.95)
         else js_max h (Num 0.3))"
  unfolding combineSignals_def Let_def bucket_score_sources total_weight fsub_self
    fmul_zero_left weight_score_add_zero
  by (simp split: prod.splits)

text \<open>A verdict of the aggregation has no strength, whatever the signals.\<close>

lemma technical_verdict_no_strength:
  "overall_strength (evaluateTechnicalSignals sigs) = None"
  by (simp add: technical_verdict Let_def)

text \<open>A source without a strength makes the score of its verdict \<open>NaN\<close>.\<close>

lemma weight_score_no_strength:
  "overall_strength (technical_overall technical) = None \<Longrightarrow>
   overall_signal (technical_overall technical) = label \<Longrightarrow>
   weight_score label technical sentiment ml = NaN"
  by (simp add: weight_score_def to_number_def)

text \<open>A sentiment of average confidence 0.4 is HOLD with strength 0.2, whatever the score.\<close>

lemma weak_sentiment_signal:
  "sentimentToSignal score 0.4 = \<lparr>signal = ''HOLD'', strength = 0.2\<rparr>"
  by (simp add: sentimentToSignal_def fl_eval)

text \<open>
  The floor in doubles. For a technical BUY that carries a strength of 0.8 and a prediction
  BUY of strength 1, \<open>0.8 \<times> 0.5 + 1 \<times> 0.2\<close> is \<open>0.6\<close> in the reals, but the sum of the two
  products is the double above the literal \<open>0.6\<close>, and BUY is emitted.
\<close>

lemma floor_reached_by_rounding:
  "final_signal (combineSignals
      \<lparr>technical_overall = \<lparr>overall_signal = ''BUY'', overall_strength = Some 0.8,
         overall_confidence = Num 0.9, overall_scores = \<lparr>buy = 0.9, sell = 0, hold = 0.1\<rparr>\<rparr>\<rparr>
      \<lparr>sentiment_overall = \<lparr>sentiment_confidence = Num 0.4,
         sentiment_signal = \<lparr>signal = ''HOLD'', strength = 0.2\<rparr>\<rparr>\<rparr>
      \<lparr>priceDirection = ''UP'', volatility = ''MEDIUM'', ml_confidence = Num 0.95,
       ml_signal = \<lparr>signal = ''BUY'', strength = 1\<rparr>\<rparr>) = ''BUY''"
  by (simp add: combineSignals_signal weight_score_def to_number_def js_gt_def fl_eval)

text \<open>
  Claim C1, as stated, has every source's strength multiplied by its weight and by its own
  confidence. The code multiplies by the weight only. The input is one the program builds:
  a technical verdict of the aggregation (SELL), the signal of a sentiment of confidence
  0.4 (HOLD) and a prediction UP of confidence 0.9, whose signal is BUY with strength
  \<open>0.9 \<times> 0.8\<close>. The code's BUY score is
  that strength times 0.2, about 0.144; with the confidence as a further factor it would
  be about 0.1296.
\<close>

theorem combiner_ignores_confidence:
  "fs_buy (finalScores (reasoning (combineSignals
      \<lparr>technical_overall = evaluateTechnicalSignals
         [(''maSignal'', \<lparr>signal = ''SELL'', strength = 0.7\<rparr>),
          (''rsiSignal'', \<lparr>signal = ''HOLD'', strength = 0.4\<rparr>)]\<rparr>
      \<lparr>sentiment_overall = \<lparr>sentiment_confidence = Num 0.4,
         sentiment_signal = sentimentToSignal 0.1 0.4\<rparr>\<rparr>
      (performMLAnalysis (Some \<lparr>pred_priceDirection = ''UP'', pred_volatility = ''MEDIUM'',
                                pred_confidence = 0.9\<rparr>)))))
     = Num (fmul (fmul 0.9 0.8) 0.2)
   \<and> spec_confidence_score ''BUY''
      \<lparr>technical_overall = evaluateTechnicalSignals
         [(''maSignal'', \<lparr>signal = ''SELL'', strength = 0.7\<rparr>),
          (''rsiSignal'', \<lparr>signal = ''HOLD'', strength = 0.4\<rparr>)]\<rparr>
      \<lparr>sentiment_overall = \<lparr>sentiment_confidence = Num 0.4,
         sentiment_signal = sentimentToSignal 0.1 0.4\<rparr>\<rparr>
      (performMLAnalysis (Some \<lparr>pred_priceDirection = ''UP'', pred_volatility = ''MEDIUM'',
                                pred_confidence = 0.9\<rparr>))
     = Num (fmul (fmul (fmul 0.9 0.8) 0.2) 0.9)
   \<and> js_lt (Num 0.14) (Num (fmul (fmul 0.9 0.8) 0.2))
   \<and> js_lt (Num (fmul (fmul (fmul 0.9 0.8) 0.2) 0.9)) (Num 0.13)"
proof -
  let ?sigs = "[(''maSignal'', \<lparr>signal = ''SELL'', strength = 0.7\<rparr>),
          (''rsiSignal'', \<lparr>signal = ''HOLD'', strength = 0.4\<rparr>)]"
  let ?t = "\<lparr>technical_overall = evaluateTechnicalSignals ?sigs\<rparr>"
  let ?s = "\<lparr>sentiment_overall = \<lparr>sentiment_confidence = Num 0.4,
         sentiment_signal = sentimentToSignal 0.1 0.4\<rparr>\<rparr>"
  let ?p = "\<lparr>pred_priceDirection = ''UP'', pred_volatility = ''MEDIUM'', pred_confidence = 0.9\<rparr>"
  have verdict: "overall_signal (evaluateTechnicalSignals ?sigs) = ''SELL''"
    by (simp add: technical_verdict spec_bucket_sum_def spec_bucket_strengths_def spec_bucket_def
          reduce_sum_def Let_def fl_eval)
  have prediction: "performMLAnalysis (Some ?p) =
      \<lparr>priceDirection = ''UP'', volatility = ''MEDIUM'', ml_confidence = Num 0.9,
       ml_signal = \<lparr>signal = ''BUY'', strength = fmul 0.9 0.8\<rparr>\<rparr>"
  proof -
    have "\<not> fl 0.9 < fl (0.6::real)"
      by (simp add: fl_eval)
    then show ?thesis
      by (simp add: performMLAnalysis_def mlToSignal_def)
  qed
  have code: "weight_score ''BUY'' ?t ?s (performMLAnalysis (Some ?p)) = Num (fmul (fmul 0.9 0.8) 0.2)"
    using verdict unfolding prediction weak_sentiment_signal
    by (simp add: weight_score_def js_add_zero fl_result)
  have spec: "spec_confidence_score ''BUY'' ?t ?s (performMLAnalysis (Some ?p))
      = Num (fmul (fmul (fmul 0.9 0.8) 0.2) 0.9)"
    using verdict unfolding prediction weak_sentiment_signal
    by (simp add: spec_confidence_score_def js_add_zero fl_result)
  have bounds: "js_lt (Num 0.14) (Num (fmul (fmul 0.9 0.8) 0.2))"
      "js_lt (Num (fmul (fmul (fmul 0.9 0.8) 0.2) 0.9)) (Num 0.13)"
    by (simp_all add: fl_eval)
  from code spec bounds show ?thesis
    by (simp only: combineSignals_scores final_scores.simps)
qed

text \<open>
  Claim C1, amended. Each source's strength is multiplied by its weight (0.5, 0.3, 0.2),
  not by its confidence, and added to the score of its verdict, all in doubles. BUY is
  emitted exactly when the BUY score exceeds the SELL score, the HOLD score and 0.6; SELL
  likewise; any other case is HOLD. For a technical BUY, with a strength of 0.8 or, as the
  aggregation builds it, with none, a sentiment HOLD and a failed prediction, the decision
  is HOLD.
\<close>

theorem combiner_decision:
  fixes technical :: technical_obj and sentiment :: sentiment_obj and ml :: ml_obj
  defines "r \<equiv> combineSignals technical sentiment ml"
      and "b \<equiv> weight_score ''BUY'' technical sentiment ml"
      and "s \<equiv> weight_score ''SELL'' technical sentiment ml"
      and "h \<equiv> weight_score ''HOLD'' technical sentiment ml"
  shows "fs_buy (finalScores (reasoning r)) = b
       \<and> fs_sell (finalScores (reasoning r)) = s
       \<and> fs_hold (finalScores (reasoning r)) = h
       \<and> (final_signal r = ''BUY'' \<longleftrightarrow> js_gt b s \<and> js_gt b h \<and> js_gt b (Num 0.6))
       \<and> (final_signal r = ''SELL'' \<longleftrightarrow> js_gt s b \<and> js_gt s h \<and> js_gt s (Num 0.6))
       \<and> (final_signal r = ''BUY'' \<or> final_signal r = ''SELL'' \<or> final_signal r = ''HOLD'')
       \<and> (overall_signal (technical_overall technical) = ''BUY''
            \<and> (overall_strength (technical_overall technical) = None
                 \<or> overall_strength (technical_overall technical) = Some 0.8)
            \<and> signal (sentiment_signal (sentiment_overall sentiment)) = ''HOLD''
            \<and> ml = performMLAnalysis None
          \<longrightarrow> final_signal r = ''HOLD'')"
proof -
  have asym: "\<not> (js_gt b s \<and> js_gt s b)"
    using js_lt_asym [of b s] by (auto simp: js_gt_def)
  have scenario: "final_signal r = ''HOLD''"
    if buy: "overall_signal (technical_overall technical) = ''BUY''"
      and strength: "overall_strength (technical_overall technical) = None
           \<or> overall_strength (technical_overall technical) = Some 0.8"
      and hold: "signal (sentiment_signal (sentiment_overall sentiment)) = ''HOLD''"
      and failed: "ml = performMLAnalysis None"
  proof -
    have sell: "s = Num 0"
      unfolding s_def using buy hold failed
      by (simp add: weight_score_def performMLAnalysis_def js_add_zero)
    from strength show ?thesis
    proof
      assume "overall_strength (technical_overall technical) = None"
      from weight_score_no_strength [OF this buy] have "b = NaN"
        unfolding b_def .
      then show ?thesis
        unfolding r_def
        by (simp add: combineSignals_signal Let_def b_def [symmetric] js_gt_def)
    next
      assume some: "overall_strength (technical_overall technical) = Some 0.8"
      have "b = Num (fmul 0.8 0.5)"
        unfolding b_def using buy hold failed some
        by (simp add: weight_score_def performMLAnalysis_def to_number_def js_add_zero fl_result)
      moreover have "\<not> fl 0.6 < fl (fmul 0.8 0.5)" and "\<not> fl (fmul 0.8 0.5) < fl 0"
        by (simp_all add: fl_eval)
      ultimately show ?thesis
        unfolding r_def using sell
        by (simp add: combineSignals_signal Let_def b_def [symmetric] s_def [symmetric] js_gt_def)
    qed
  qed
  show ?thesis
    using asym scenario unfolding r_def b_def s_def h_def
    by (auto simp add: combineSignals_scores combineSignals_signal Let_def)
qed

theorem combiner_decision_witness:
  "final_signal (combineSignals
      \<lparr>technical_overall = evaluateTechnicalSignals
         [(''maSignal'', \<lparr>signal = ''BUY'', strength = 0.7\<rparr>),
          (''rsiSignal'', \<lparr>signal = ''HOLD'', strength = 0.4\<rparr>)]\<rparr>
      \<lparr>sentiment_overall = \<lparr>sentiment_confidence = Num 0.4,
         sentiment_signal = sentimentToSignal 0.1 0.4\<rparr>\<rparr>
      (performMLAnalysis None)) = ''HOLD''
   \<and> fs_buy (finalScores (reasoning (combineSignals
      \<lparr>technical_overall = evaluateTechnicalSignals
         [(''maSignal'', \<lparr>signal = ''BUY'', strength = 0.7\<rparr>),
          (''rsiSignal'', \<lparr>signal = ''HOLD'', strength = 0.4\<rparr>)]\<rparr>
      \<lparr>sentiment_overall = \<lparr>sentiment_confidence = Num 0.4,
         sentiment_signal = sentimentToSignal 0.1 0.4\<rparr>\<rparr>
      (performMLAnalysis None)))) = NaN"
proof -
  let ?sigs = "[(''maSignal'', \<lparr>signal = ''BUY'', strength = 0.7\<rparr>),
          (''rsiSignal'', \<lparr>signal = ''HOLD'', strength = 0.4\<rparr>)]"
  let ?t = "\<lparr>technical_overall = evaluateTechnicalSignals ?sigs\<rparr>"
  let ?s = "\<lparr>sentiment_overall = \<lparr>sentiment_confidence = Num 0.4,
         sentiment_signal = sentimentToSignal 0.1 0.4\<rparr>\<rparr>"
  have verdict: "overall_signal (technical_overall ?t) = ''BUY''"
    by (simp add: technical_verdict spec_bucket_sum_def spec_bucket_strengths_def spec_bucket_def
          reduce_sum_def Let_def fl_eval)
  have none: "overall_strength (technical_overall ?t) = None"
    by (simp add: technical_verdict_no_strength)
  have label: "signal (sentiment_signal (sentiment_overall ?s)) = ''HOLD''"
    unfolding weak_sentiment_signal by simp
  note score = weight_score_no_strength [OF none verdict, of ?s "performMLAnalysis None"]
  show ?thesis
    using combiner_decision [of ?t ?s "performMLAnalysis None"] verdict none label score
    by simp
qed


text \<open>
  Whenever the technical verdict is HOLD and has no strength, as every verdict of the
  aggregation, the HOLD score is \<open>NaN\<close>; no score exceeds it, the decision is HOLD and its
  confidence is \<open>Math.max(NaN, 0.3)\<close>.
\<close>

lemma hold_verdict_decision:
  assumes "overall_signal (technical_overall technical) = ''HOLD''"
    and "overall_strength (technical_overall technical) = None"
  shows "fs_hold (finalScores (reasoning (combineSignals technical sentiment ml))) = NaN"
    and "final_signal (combineSignals technical sentiment ml) = ''HOLD''"
    and "final_confidence (combineSignals technical sentiment ml) = NaN"
  using weight_score_no_strength [OF assms(2) assms(1), of sentiment ml]
  by (simp_all add: combineSignals_scores combineSignals_signal combineSignals_confidence
        Let_def js_gt_def)

text \<open>
  Claim C3. Every confidence should lie in \<open>[0.1, 0.95]\<close>, and on HOLD equal the HOLD score
  floored at 0.3. \<open>combineSignals\<close> multiplies \<open>technical.overall.strength\<close> by the weight,
  and the verdict that \<open>evaluateTechnicalSignals\<close> builds has no such property. With two
  HOLD indicator signals, a sentiment of confidence 0.4 and a NEUTRAL prediction of
  confidence 0.5 the technical verdict is HOLD, the HOLD score is \<open>NaN\<close>, and the decision
  is HOLD with confidence \<open>NaN\<close>: neither in the interval nor at the floor.
\<close>

theorem hold_verdict_confidence_nan:
  "overall_signal (evaluateTechnicalSignals
      [(''maSignal'', \<lparr>signal = ''HOLD'', strength = 0.3\<rparr>),
       (''rsiSignal'', \<lparr>signal = ''HOLD'', strength = 0.4\<rparr>)]) = ''HOLD''
   \<and> final_signal (combineSignals
      \<lparr>technical_overall = evaluateTechnicalSignals
         [(''maSignal'', \<lparr>signal = ''HOLD'', strength = 0.3\<rparr>),
          (''rsiSignal'', \<lparr>signal = ''HOLD'', strength = 0.4\<rparr>)]\<rparr>
      \<lparr>sentiment_overall = \<lparr>sentiment_confidence = Num 0.4,
         sentiment_signal = sentimentToSignal 0.1 0.4\<rparr>\<rparr>
      (performMLAnalysis (Some \<lparr>pred_priceDirection = ''NEUTRAL'', pred_volatility = ''MEDIUM'',
                                pred_confidence = 0.5\<rparr>))) = ''HOLD''
   \<and> final_confidence (combineSignals
      \<lparr>technical_overall = evaluateTechnicalSignals
         [(''maSignal'', \<lparr>signal = ''HOLD'', strength = 0.3\<rparr>),
          (''rsiSignal'', \<lparr>signal = ''HOLD'', strength = 0.4\<rparr>)]\<rparr>
      \<lparr>sentiment_overall = \<lparr>sentiment_confidence = Num 0.4,
         sentiment_signal = sentimentToSignal 0.1 0.4\<rparr>\<rparr>
      (performMLAnalysis (Some \<lparr>pred_priceDirection = ''NEUTRAL'', pred_volatility = ''MEDIUM'',
                                pred_confidence = 0.5\<rparr>))) = NaN
   \<and> fs_hold (finalScores (reasoning (combineSignals
      \<lparr>technical_overall = evaluateTechnicalSignals
         [(''maSignal'', \<lparr>signal = ''HOLD'', strength = 0.3\<rparr>),
          (''rsiSignal'', \<lparr>signal = ''HOLD'', strength = 0.4\<rparr>)]\<rparr>
      \<lparr>sentiment_overall = \<lparr>sentiment_confidence = Num 0.4,
         sentiment_signal = sentimentToSignal 0.1 0.4\<rparr>\<rparr>
      (performMLAnalysis (Some \<lparr>pred_priceDirection = ''NEUTRAL'', pred_volatility = ''MEDIUM'',
                                pred_confidence = 0.5\<rparr>))))) = NaN
   \<and> \<not> js_ge NaN (Num 0.1) \<and> \<not> js_le NaN (Num 0.95) \<and> NaN \<noteq> Num 0.3"
proof -
  let ?sigs = "[(''maSignal'', \<lparr>signal = ''HOLD'', strength = 0.3\<rparr>),
          (''rsiSignal'', \<lparr>signal = ''HOLD'', strength = 0.4\<rparr>)]"
  let ?t = "\<lparr>technical_overall = evaluateTechnicalSignals ?sigs\<rparr>"
  have verdict: "overall_signal (evaluateTechnicalSignals ?sigs) = ''HOLD''"
    by (simp add: technical_verdict spec_bucket_sum_def spec_bucket_strengths_def spec_bucket_def
          reduce_sum_def Let_def fl_eval)
  have hold: "overall_signal (technical_overall ?t) = ''HOLD''"
    using verdict by simp
  have none: "overall_strength (technical_overall ?t) = None"
    by (simp add: technical_verdict_no_strength)
  from verdict hold_verdict_decision [OF hold none] show ?thesis
    by (simp only: js_ge_def js_le.simps jsnum.distinct simp_thms)
qed

text \<open>
  Claim C4. A failed prediction source should leave its weight, 0.2, unused and add half
  of it, 0.1, to the HOLD score. \<open>performMLAnalysis\<close> answers a failure with a HOLD signal
  of strength 0, which enters the array with its weight like any other; the weights always
  sum to 1 and the neutral weight is always 0. With a technical BUY as the aggregation
  builds it, a sentiment HOLD of strength 0.2 and a failed prediction, the HOLD score is
  the sentiment's 0.06, not 0.16; with a technical HOLD that carries a strength of 0.4 it
  is 0.26, not 0.36. Both values are the doubles written \<open>0.06\<close> and \<open>0.26\<close>.
\<close>

theorem failed_source_adds_no_neutral_weight:
  "fs_hold (finalScores (reasoning (combineSignals
      \<lparr>technical_overall = evaluateTechnicalSignals
         [(''maSignal'', \<lparr>signal = ''BUY'', strength = 0.7\<rparr>),
          (''rsiSignal'', \<lparr>signal = ''HOLD'', strength = 0.4\<rparr>)]\<rparr>
      \<lparr>sentiment_overall = \<lparr>sentiment_confidence = Num 0.4,
         sentiment_signal = \<lparr>signal = ''HOLD'', strength = 0.2\<rparr>\<rparr>\<rparr>
      (performMLAnalysis None)))) = Num (fl 0.06)
   \<and> fs_hold (finalScores (reasoning (combineSignals
      \<lparr>technical_overall = \<lparr>overall_signal = ''HOLD'', overall_strength = Some 0.4,
         overall_confidence = Num 0.9, overall_scores = \<lparr>buy = 0, sell = 0.1, hold = 0.9\<rparr>\<rparr>\<rparr>
      \<lparr>sentiment_overall = \<lparr>sentiment_confidence = Num 0.4,
         sentiment_signal = \<lparr>signal = ''HOLD'', strength = 0.2\<rparr>\<rparr>\<rparr>
      (performMLAnalysis None)))) = Num (fl 0.26)
   \<and> ml_signal (performMLAnalysis None) = \<lparr>signal = ''HOLD'', strength = 0\<rparr>"
proof -
  let ?sigs = "[(''maSignal'', \<lparr>signal = ''BUY'', strength = 0.7\<rparr>),
          (''rsiSignal'', \<lparr>signal = ''HOLD'', strength = 0.4\<rparr>)]"
  have verdict: "overall_signal (evaluateTechnicalSignals ?sigs) = ''BUY''"
    by (simp add: technical_verdict spec_bucket_sum_def spec_bucket_strengths_def spec_bucket_def
          reduce_sum_def Let_def fl_eval)
  have products: "fmul 0.2 0.3 = fl 0.06" "fadd (fmul 0.4 0.5) (fmul 0.2 0.3) = fl 0.26"
    by (simp_all add: fl_eval)
  have "weight_score ''HOLD'' \<lparr>technical_overall = evaluateTechnicalSignals ?sigs\<rparr>
      \<lparr>sentiment_overall = \<lparr>sentiment_confidence = Num 0.4,
         sentiment_signal = \<lparr>signal = ''HOLD'', strength = 0.2\<rparr>\<rparr>\<rparr>
      (performMLAnalysis None) = Num (fmul 0.2 0.3)"
    using verdict
    by (simp add: weight_score_def performMLAnalysis_def fmul_zero_left js_add_zero fl_result)
  also have "\<dots> = Num (fl 0.06)"
    by (simp only: products(1))
  finally have first: "weight_score ''HOLD'' \<lparr>technical_overall = evaluateTechnicalSignals ?sigs\<rparr>
      \<lparr>sentiment_overall = \<lparr>sentiment_confidence = Num 0.4,
         sentiment_signal = \<lparr>signal = ''HOLD'', strength = 0.2\<rparr>\<rparr>\<rparr>
      (performMLAnalysis None) = Num (fl 0.06)" .
  have "weight_score ''HOLD''
      \<lparr>technical_overall = \<lparr>overall_signal = ''HOLD'', overall_strength = Some 0.4,
         overall_confidence = Num 0.9, overall_scores = \<lparr>buy = 0, sell = 0.1, hold = 0.9\<rparr>\<rparr>\<rparr>
      \<lparr>sentiment_overall = \<lparr>sentiment_confidence = Num 0.4,
         sentiment_signal = \<lparr>signal = ''HOLD'', strength = 0.2\<rparr>\<rparr>\<rparr>
      (performMLAnalysis None) = Num (fadd (fmul 0.4 0.5) (fmul 0.2 0.3))"
    by (simp add: weight_score_def performMLAnalysis_def to_number_def fmul_zero_left
          js_add_zero fl_result)
  also have "\<dots> = Num (fl 0.26)"
    by (simp only: products(2))
  finally have second: "weight_score ''HOLD''
      \<lparr>technical_overall = \<lparr>overall_signal = ''HOLD'', overall_strength = Some 0.4,
         overall_confidence = Num 0.9, overall_scores = \<lparr>buy = 0, sell = 0.1, hold = 0.9\<rparr>\<rparr>\<rparr>
      \<lparr>sentiment_overall = \<lparr>sentiment_confidence = Num 0.4,
         sentiment_signal = \<lparr>signal = ''HOLD'', strength = 0.2\<rparr>\<rparr>\<rparr>
      (performMLAnalysis None) = Num (fl 0.26)" .
  have third: "ml_signal (performMLAnalysis None) = \<lparr>signal = ''HOLD'', strength = 0\<rparr>"
    by (simp add: performMLAnalysis_def)
  from first second third show ?thesis
    by (simp only: combineSignals_scores final_scores.simps simp_thms)
qed

section \<open>The evaluator on a decision without a confidence\<close>

text \<open>
  When the technical verdict is HOLD, the combiner multiplies the verdict's missing
  \<open>strength\<close> by its weight: the HOLD score and the confidence of the decision are \<open>NaN\<close>.
\<close>

lemma hold_verdict_analysis:
  "analyzeMarket
     \<lparr>technical_overall = evaluateTechnicalSignals
        [(''maSignal'', \<lparr>signal = ''HOLD'', strength = 0.3\<rparr>),
         (''emaSignal'', \<lparr>signal = ''HOLD'', strength = 0.4\<rparr>),
         (''rsiSignal'', \<lparr>signal = ''HOLD'', strength = 0.6\<rparr>)]\<rparr>
     \<lparr>sentiment_overall = \<lparr>sentiment_confidence = Num 0.4,
        sentiment_signal = \<lparr>signal = ''HOLD'', strength = 0.2\<rparr>\<rparr>\<rparr>
     None
   = \<lparr>an_signal = ''HOLD'', an_confidence = NaN, an_technical = Some (Num 1),
      an_sentiment = Some (Num 0.4), an_machineLearning = Some (Num 0, ''MEDIUM'')\<rparr>"
proof -
  let ?sigs = "[(''maSignal'', \<lparr>signal = ''HOLD'', strength = 0.3\<rparr>),
         (''emaSignal'', \<lparr>signal = ''HOLD'', strength = 0.4\<rparr>),
         (''rsiSignal'', \<lparr>signal = ''HOLD'', strength = 0.6\<rparr>)]"
  let ?t = "\<lparr>technical_overall = evaluateTechnicalSignals ?sigs\<rparr>"
  have verdict: "overall_signal (evaluateTechnicalSignals ?sigs) = ''HOLD''"
      "overall_confidence (evaluateTechnicalSignals ?sigs) = Num 1"
    by (simp_all add: technical_verdict spec_bucket_sum_def spec_bucket_strengths_def
          spec_bucket_def reduce_sum_def Let_def fl_eval)
  have hold: "overall_signal (technical_overall ?t) = ''HOLD''"
    using verdict by simp
  have none: "overall_strength (technical_overall ?t) = None"
    by (simp add: technical_verdict_no_strength)
  from verdict hold_verdict_decision(2,3) [OF hold none] show ?thesis
    by (simp add: analyzeMarket_def performMLAnalysis_def Let_def)
qed

text \<open>
  Claim C2. Every assessment should have a recommended size in \<open>[0, maxPositionSize]\<close>,
  positive when approved. The analysis below is what \<open>analyzeMarket\<close> builds from three
  HOLD indicator signals, a HOLD sentiment and a failed prediction; its confidence is
  \<open>NaN\<close>. The quality gate \<open>score < 0.6\<close> and the size gate \<open>positionSize <= 0\<close> are both
  false on \<open>NaN\<close>, so with a valid configuration and the source's helper values the trade
  is approved with a recommended size of \<open>NaN\<close>.
\<close>

theorem nan_confidence_approved:
  "an_confidence (analyzeMarket
     \<lparr>technical_overall = evaluateTechnicalSignals
        [(''maSignal'', \<lparr>signal = ''HOLD'', strength = 0.3\<rparr>),
         (''emaSignal'', \<lparr>signal = ''HOLD'', strength = 0.4\<rparr>),
         (''rsiSignal'', \<lparr>signal = ''HOLD'', strength = 0.6\<rparr>)]\<rparr>
     \<lparr>sentiment_overall = \<lparr>sentiment_confidence = Num 0.4,
        sentiment_signal = \<lparr>signal = ''HOLD'', strength = 0.2\<rparr>\<rparr>\<rparr>
     None) = NaN
   \<and> evaluateOpportunity
     (source_env
        \<lparr>riskSettings = Some \<lparr>maxPositionSize = 0.05, maxTotalExposure = 0.8,
           maxSectorExposure = None, useKellyCriterion = False, minTradeValue = None,
           maxTradeValue = None\<rparr>,
         platforms = Some [''binance''],
         tradingSettings = Some \<lparr>allowedSymbols = None, blockedSymbols = None\<rparr>\<rparr>
        [])
     (analyzeMarket
        \<lparr>technical_overall = evaluateTechnicalSignals
           [(''maSignal'', \<lparr>signal = ''HOLD'', strength = 0.3\<rparr>),
            (''emaSignal'', \<lparr>signal = ''HOLD'', strength = 0.4\<rparr>),
            (''rsiSignal'', \<lparr>signal = ''HOLD'', strength = 0.6\<rparr>)]\<rparr>
        \<lparr>sentiment_overall = \<lparr>sentiment_confidence = Num 0.4,
           sentiment_signal = \<lparr>signal = ''HOLD'', strength = 0.2\<rparr>\<rparr>\<rparr>
        None)
     ''BTC''
   = \<lparr>approved = True, recommendedSize = NaN, reason = '''', riskLevel = LOW,
      approvedPlatforms = [''binance''], conditions = []\<rparr>
   \<and> \<not> js_gt NaN (Num 0) \<and> \<not> js_le NaN (Num 0.05)"
  unfolding hold_verdict_analysis
  by (simp add: evaluateOpportunity_def source_env_def isSymbolAllowed_def
        assessMarketConditions_def checkPortfolioExposure_def getCurrentExposure_def
        getTotalAccountValue_def getAssetSector_def or_default_def assessSignalQuality_def
        calculatePositionSize_def getTotalPortfolioValue_def checkCorrelationRisk_def
        assessPlatformRisk_def calculateRiskLevel_def getTradeConditions_def js_gt_def Let_def)

end
